theory Spec2Isabelle
  imports Complex_Main
begin

section \<open>Raw values and validation errors\<close>

text \<open>
  The models of \<^verbatim>\<open>models.py\<close> are pydantic (version 1) classes: the module declares
  fields and validators, and pydantic's \<^verbatim>\<open>validate_model\<close> runs them on an untyped
  value. A raw value is what \<^verbatim>\<open>json.loads\<close> gives (null, booleans, integers, floats,
  strings, lists, objects with string keys), or one of the two kinds of Python object that
  the validators of the module test for: a \<^verbatim>\<open>datetime\<close> instance (type \<open>'t\<close>) and an
  \<^verbatim>\<open>Element\<close> instance (type \<open>'e\<close>, the class imported from \<^verbatim>\<open>.utils\<close>). An object
  is an association list in insertion order, read with \<^const>\<open>map_of\<close>. A \<^typ>\<open>char\<close> stands
  for one code point. A finite float is given by its exact value; \<^verbatim>\<open>-0.0\<close>,
  \<^verbatim>\<open>Infinity\<close>, \<^verbatim>\<open>-Infinity\<close> and \<^verbatim>\<open>NaN\<close>, which \<^verbatim>\<open>json.loads\<close> accepts, are
  values of their own.
\<close>

datatype pyfloat = Finite rat | NegZero | PosInf | NegInf | NaN

datatype ('t, 'e) raw =
    RNull
  | RBool bool
  | RInt int
  | RFloat pyfloat
  | RStr string
  | RList "('t, 'e) raw list"
  | RDict "(string \<times> ('t, 'e) raw) list"
  | RDatetime 't
  | RElement 'e

text \<open>
  An exception of Python, by its class and message. pydantic runs every validator inside
  \<^verbatim>\<open>except (ValueError, TypeError, AssertionError)\<close>: an exception of these classes (or
  of a subclass) becomes an error of the validation, and an exception of any other class,
  an \<^verbatim>\<open>OverflowError\<close> for one, leaves pydantic and ends the whole decoding.
\<close>

datatype exception =
    ValueError string
  | TypeError string
  | AssertionError string
  | OverflowError string
  | OtherException string

fun caught :: "exception \<Rightarrow> bool" where
  "caught (ValueError m) = True"
| "caught (TypeError m) = True"
| "caught (AssertionError m) = True"
| "caught (OverflowError m) = False"
| "caught (OtherException m) = False"

text \<open>
  The errors: pydantic's own (\<^verbatim>\<open>MissingError\<close>, \<^verbatim>\<open>NoneIsNotAllowedError\<close>, ...), the
  exceptions the validators of \<^verbatim>\<open>models.py\<close> raise, and an exception raised by a
  built-in or a collaborator (\<^verbatim>\<open>str\<close>, \<^verbatim>\<open>int\<close>, the markup parser,
  \<^verbatim>\<open>datetime.fromtimestamp\<close>, the conversion of a raw value to an \<^verbatim>\<open>Element\<close>).
  \<^item> \<open>InvalidTimestamp v\<close> is \<^verbatim>\<open>ValueError(f"invalid timestamp: {v}")\<close>;
  \<^item> \<open>IntTypeError v\<close> is the \<^verbatim>\<open>TypeError\<close> of \<^verbatim>\<open>int(v)\<close>, which the handler
    \<^verbatim>\<open>except ValueError\<close> of the timestamp validators does not catch;
  \<^item> \<open>ContentMustBeStr\<close> is \<^verbatim>\<open>ValueError("content must be str")\<close>;
  \<^item> \<open>WrongConstantError given permitted\<close> is the error of a \<^verbatim>\<open>Literal\<close> field;
  \<^item> \<open>KeywordsMustBeStrings\<close> is the \<^verbatim>\<open>TypeError\<close> of \<^verbatim>\<open>cls(**d)\<close> on a key that is
    not a string;
  \<^item> \<open>MultipleValuesError\<close> is the \<^verbatim>\<open>TypeError\<close> of \<^verbatim>\<open>cls(**d)\<close> on the key
    \<^verbatim>\<open>__pydantic_self__\<close>, the name of the first parameter of \<^verbatim>\<open>BaseModel.__init__\<close>;
  \<^item> \<open>Raised x\<close> is the exception \<open>x\<close>, caught by pydantic or not.
  A validation error is a list of errors, each with its location.
\<close>

datatype ('t, 'e) error =
    MissingError
  | NoneIsNotAllowedError
  | StrError
  | IntegerError
  | BoolError
  | DictError
  | ListError
  | EnumMemberError "int list"
  | WrongConstantError "('t, 'e) raw" int
  | KeywordsMustBeStrings
  | MultipleValuesError
  | InvalidTimestamp "('t, 'e) raw"
  | IntTypeError "('t, 'e) raw"
  | ContentMustBeStr
  | Raised exception

datatype loc = Key string | Index nat

type_synonym ('t, 'e) errors = "(loc list \<times> ('t, 'e) error) list"

type_synonym ('t, 'e) dict = "(string \<times> ('t, 'e) raw) list"

text \<open>
  The collaborators of the module, which are not part of it:
  \<^item> \<open>parse\<close> is \<^verbatim>\<open>parse\<close> of \<^verbatim>\<open>.utils\<close>, the markup parser;
  \<^item> \<open>element_of\<close> is pydantic's validation, as an \<^verbatim>\<open>Element\<close>, of a value that is not
    an \<^verbatim>\<open>Element\<close> instance (it depends on the declaration of the class);
  \<^item> \<open>fromtimestamp q\<close> is \<^verbatim>\<open>datetime.fromtimestamp(timestamp / 1000)\<close> for the integer
    \<^verbatim>\<open>timestamp\<close> with \<open>q = timestamp / 1000\<close>: Python's division of integers is the
    correctly rounded quotient, so the float is a function of the exact quotient. The
    division raises \<^verbatim>\<open>OverflowError\<close> on a quotient too large for a float, and
    \<^verbatim>\<open>fromtimestamp\<close> raises \<^verbatim>\<open>ValueError\<close>, \<^verbatim>\<open>OverflowError\<close> or \<^verbatim>\<open>OSError\<close> on a
    time out of its range;
  \<^item> \<open>repr_float\<close> is \<^verbatim>\<open>str\<close> on a float.
  A collaborator that raises returns \<open>Inl\<close> of the exception.
\<close>

record ('t, 'e) lib =
  parse :: "string \<Rightarrow> exception + 'e list"
  element_of :: "('t, 'e) raw \<Rightarrow> exception + 'e"
  fromtimestamp :: "rat \<Rightarrow> exception + 't"
  repr_float :: "pyfloat \<Rightarrow> string"

section \<open>Python built-ins\<close>

subsection \<open>\<^verbatim>\<open>int(s)\<close> and \<^verbatim>\<open>str(n)\<close>\<close>

text \<open>
  \<^verbatim>\<open>int(s)\<close> on a string: the white space at both ends is dropped (tab, line feed,
  vertical tab, form feed, carriage return, space, and the two white space characters
  above 127, U+0085 and U+00A0; not U+001C to U+001F), then come a sign and the decimal
  digits. Beyond 4300 digits \<^verbatim>\<open>int\<close> raises \<^verbatim>\<open>ValueError\<close>, and so does \<^verbatim>\<open>str\<close> on an
  integer of more than 4300 digits (the default of \<^verbatim>\<open>sys.set_int_max_str_digits\<close>).
\<close>

definition isspace :: "char \<Rightarrow> bool" where
  "isspace c = ((of_char c :: nat) \<in> {9, 10, 11, 12, 13, 32, 133, 160})"

definition isdigit :: "char \<Rightarrow> bool" where
  "isdigit c = (48 \<le> (of_char c :: nat) \<and> (of_char c :: nat) \<le> 57)"

definition digit :: "char \<Rightarrow> nat" where
  "digit c = of_char c - 48"

text \<open>The digits after a first digit; an underscore stands between two digits only.\<close>

fun int_digits :: "nat \<Rightarrow> string \<Rightarrow> nat option" where
  "int_digits acc [] = Some acc"
| "int_digits acc [c] = (if isdigit c then Some (10 * acc + digit c) else None)"
| "int_digits acc (c # d # cs) =
     (if isdigit c then int_digits (10 * acc + digit c) (d # cs)
      else if c = CHR ''_'' \<and> isdigit d then int_digits (10 * acc + digit d) cs
      else None)"

definition int_literal :: "string \<Rightarrow> nat option" where
  "int_literal s =
     (case s of
        [] \<Rightarrow> None
      | c # cs \<Rightarrow> if isdigit c then int_digits (digit c) cs else None)"

definition strip :: "string \<Rightarrow> string" where
  "strip s = rev (dropWhile isspace (rev (dropWhile isspace s)))"

definition max_str_digits :: nat where
  "max_str_digits = 4300"

definition int_of_str :: "string \<Rightarrow> int option" where
  "int_of_str s =
     (if max_str_digits < length (filter isdigit s) then None
      else
        (case strip s of
           [] \<Rightarrow> None
         | c # cs \<Rightarrow>
             if c = CHR ''-'' then map_option (\<lambda>n. - int n) (int_literal cs)
             else if c = CHR ''+'' then map_option int (int_literal cs)
             else map_option int (int_literal (c # cs))))"

definition digit_char :: "nat \<Rightarrow> char" where
  "digit_char n = ''0123456789'' ! n"

fun str_nat :: "nat \<Rightarrow> string" where
  "str_nat n =
     (if n < 10 then [digit_char n]
      else str_nat (n div 10) @ [digit_char (n mod 10)])"

declare str_nat.simps [simp del]

definition str_int :: "int \<Rightarrow> string" where
  "str_int i = (if i < 0 then CHR ''-'' # str_nat (nat (- i)) else str_nat (nat i))"

definition py_str_int :: "int \<Rightarrow> exception + string" where
  "py_str_int i =
     (if max_str_digits < length (str_nat (nat \<bar>i\<bar>))
      then Inl (ValueError ''Exceeds the limit for integer string conversion'')
      else Inr (str_int i))"

definition lower_char :: "char \<Rightarrow> char" where
  "lower_char c =
     (let n = (of_char c :: nat)
      in if (65 \<le> n \<and> n \<le> 90) \<or> (192 \<le> n \<and> n \<le> 222 \<and> n \<noteq> 215)
         then char_of (n + 32) else c)"

definition lower :: "string \<Rightarrow> string" where
  "lower s = map lower_char s"

text \<open>
  \<^verbatim>\<open>int(v)\<close>: the integer, a \<^verbatim>\<open>ValueError\<close> (a string that is no integer literal,
  \<^verbatim>\<open>NaN\<close>), an \<^verbatim>\<open>OverflowError\<close> (an infinite float) or a \<^verbatim>\<open>TypeError\<close> (a value of a
  type \<^verbatim>\<open>int\<close> does not convert). A finite float is truncated towards zero. A
  \<^verbatim>\<open>datetime\<close> and an \<^verbatim>\<open>Element\<close> are taken to define no \<^verbatim>\<open>__int__\<close>.
\<close>

datatype int_result = IntValue int | IntValueError | IntTypeErr | IntOverflowError

definition trunc :: "rat \<Rightarrow> int" where
  "trunc q = (if q < 0 then - \<lfloor>- q\<rfloor> else \<lfloor>q\<rfloor>)"

fun py_int :: "('t, 'e) raw \<Rightarrow> int_result" where
  "py_int (RInt n) = IntValue n"
| "py_int (RBool b) = IntValue (if b then 1 else 0)"
| "py_int (RFloat (Finite q)) = IntValue (trunc q)"
| "py_int (RFloat NegZero) = IntValue 0"
| "py_int (RFloat NaN) = IntValueError"
| "py_int (RFloat PosInf) = IntOverflowError"
| "py_int (RFloat NegInf) = IntOverflowError"
| "py_int (RStr s) = (case int_of_str s of Some n \<Rightarrow> IntValue n | None \<Rightarrow> IntValueError)"
| "py_int RNull = IntTypeErr"
| "py_int (RList xs) = IntTypeErr"
| "py_int (RDict d) = IntTypeErr"
| "py_int (RDatetime t) = IntTypeErr"
| "py_int (RElement e) = IntTypeErr"

subsection \<open>\<^verbatim>\<open>dict(v)\<close>\<close>

text \<open>
  \<^verbatim>\<open>dict(v)\<close> on a value that is not a dict reads an iterable of iterables of two
  items each; a key must be hashable, and a key set twice keeps its first place and its
  last value. Keys compare as in Python: numbers by their value (\<^verbatim>\<open>True == 1 == 1.0\<close>),
  and \<^verbatim>\<open>NaN\<close> equals nothing. A \<^verbatim>\<open>datetime\<close> and an \<^verbatim>\<open>Element\<close> are taken to be
  hashable and not iterable.
\<close>

fun float_number :: "pyfloat \<Rightarrow> rat option" where
  "float_number (Finite q) = Some q"
| "float_number NegZero = Some 0"
| "float_number f = None"

fun number :: "('t, 'e) raw \<Rightarrow> rat option" where
  "number (RBool b) = Some (if b then 1 else 0)"
| "number (RInt n) = Some (of_int n)"
| "number (RFloat f) = float_number f"
| "number v = None"

fun hashable :: "('t, 'e) raw \<Rightarrow> bool" where
  "hashable (RList xs) = False"
| "hashable (RDict d) = False"
| "hashable v = True"

definition py_eq :: "('t, 'e) raw \<Rightarrow> ('t, 'e) raw \<Rightarrow> bool" where
  "py_eq v w =
     (case (number v, number w) of
        (Some a, Some b) \<Rightarrow> a = b
      | (Some a, None) \<Rightarrow> False
      | (None, Some b) \<Rightarrow> False
      | (None, None) \<Rightarrow> v = w \<and> v \<noteq> RFloat NaN)"

fun item_pair :: "('t, 'e) raw \<Rightarrow> (('t, 'e) raw \<times> ('t, 'e) raw) option" where
  "item_pair (RList [k, v]) = Some (k, v)"
| "item_pair (RStr [c, d]) = Some (RStr [c], RStr [d])"
| "item_pair (RDict [(k, v), (k', v')]) = Some (RStr k, RStr k')"
| "item_pair v = None"

fun setitem :: "('k \<Rightarrow> 'k \<Rightarrow> bool) \<Rightarrow> ('k \<times> 'v) list \<Rightarrow> 'k \<Rightarrow> 'v \<Rightarrow> ('k \<times> 'v) list" where
  "setitem eq [] k v = [(k, v)]"
| "setitem eq ((k', v') # d) k v =
     (if eq k' k then (k', v) # d else (k', v') # setitem eq d k v)"

fun dict_update ::
  "(('t, 'e) raw \<times> ('t, 'e) raw) list \<Rightarrow> ('t, 'e) raw list \<Rightarrow>
   (('t, 'e) raw \<times> ('t, 'e) raw) list option" where
  "dict_update d [] = Some d"
| "dict_update d (x # xs) =
     (case item_pair x of
        None \<Rightarrow> None
      | Some (k, v) \<Rightarrow> if hashable k then dict_update (setitem py_eq d k v) xs else None)"

fun py_dict :: "('t, 'e) raw \<Rightarrow> (('t, 'e) raw \<times> ('t, 'e) raw) list option" where
  "py_dict (RDict d) = Some (map (\<lambda>(k, v). (RStr k, v)) d)"
| "py_dict (RList xs) = dict_update [] xs"
| "py_dict (RStr s) = (if s = [] then Some [] else None)"
| "py_dict v = None"

text \<open>The keyword arguments of \<^verbatim>\<open>cls(**d)\<close>: every key is a string.\<close>

fun kwargs :: "(('t, 'e) raw \<times> ('t, 'e) raw) list \<Rightarrow> ('t, 'e) dict option" where
  "kwargs [] = Some []"
| "kwargs ((RStr k, v) # d) = map_option (\<lambda>r. (k, v) # r) (kwargs d)"
| "kwargs (kv # d) = None"

section \<open>pydantic: results, fields and type validators\<close>

text \<open>
  A validation returns the validated value or the errors, and the records it sent to the
  logging sink \<^verbatim>\<open>log(level, message)\<close> of \<^verbatim>\<open>.utils\<close> on the way. A validation that
  an exception leaves (one that pydantic does not catch) returns that exception as its
  error: nothing is validated after it, and the caller sees the exception itself, not a
  \<^verbatim>\<open>ValidationError\<close>.
\<close>

type_synonym log_record = "string \<times> string"

type_synonym ('t, 'e, 'a) result = "(('t, 'e) errors + 'a) \<times> log_record list"

definition ok :: "'a \<Rightarrow> ('t, 'e, 'a) result" where
  "ok x = (Inr x, [])"

definition fail :: "('t, 'e) error \<Rightarrow> ('t, 'e, 'a) result" where
  "fail e = (Inl [([], e)], [])"

fun uncaught :: "('t, 'e) error \<Rightarrow> bool" where
  "uncaught (Raised x) = (\<not> caught x)"
| "uncaught e = False"

fun escaped :: "('t, 'e) errors \<Rightarrow> bool" where
  "escaped [] = False"
| "escaped ((p, e) # es) = (uncaught e \<or> escaped es)"

definition escapes :: "('t, 'e, 'a) result \<Rightarrow> bool" where
  "escapes r = (case fst r of Inl es \<Rightarrow> escaped es | Inr x \<Rightarrow> False)"

text \<open>
  \<^verbatim>\<open>validate_model\<close> validates the fields in their order and collects the errors of all
  of them; the model is built when there is none. An exception that leaves the validation
  of a field ends it: the fields after it are not validated, and the errors collected so
  far are lost with the \<^verbatim>\<open>ValidationError\<close> that is never raised.
\<close>

fun ap :: "('t, 'e, 'a \<Rightarrow> 'b) result \<Rightarrow> ('t, 'e, 'a) result \<Rightarrow> ('t, 'e, 'b) result" where
  "ap (Inr f, l) (Inr x, l') = (Inr (f x), l @ l')"
| "ap (Inr f, l) (Inl es, l') = (Inl es, l @ l')"
| "ap (Inl es, l) (Inr x, l') = (if escaped es then (Inl es, l) else (Inl es, l @ l'))"
| "ap (Inl es, l) (Inl es', l') =
     (if escaped es then (Inl es, l)
      else if escaped es' then (Inl es', l @ l')
      else (Inl (es @ es'), l @ l'))"

definition at_loc :: "loc \<Rightarrow> ('t, 'e, 'a) result \<Rightarrow> ('t, 'e, 'a) result" where
  "at_loc k r = (map_sum (map (\<lambda>(p, e). (k # p, e))) (\<lambda>x. x) (fst r), snd r)"

text \<open>A validation has the error \<open>e\<close> when it fails and \<open>e\<close> is among its errors.\<close>

definition has_error :: "('t, 'e, 'a) result \<Rightarrow> loc list \<times> ('t, 'e) error \<Rightarrow> bool" where
  "has_error r e = (case fst r of Inl es \<Rightarrow> e \<in> set es | Inr x \<Rightarrow> False)"

text \<open>
  One field in \<^verbatim>\<open>validate_model\<close>: an absent key is \<^verbatim>\<open>MissingError\<close> for a required
  field and the default, not validated, for another; a key that is present is validated
  by \<^verbatim>\<open>ModelField.validate\<close>.
\<close>

definition required_field ::
  "string \<Rightarrow> (('t, 'e) raw \<Rightarrow> ('t, 'e, 'a) result) \<Rightarrow> ('t, 'e) dict \<Rightarrow> ('t, 'e, 'a) result" where
  "required_field name validate input_data =
     (case map_of input_data name of
        None \<Rightarrow> (Inl [([Key name], MissingError)], [])
      | Some v \<Rightarrow> at_loc (Key name) (validate v))"

definition default_field ::
  "string \<Rightarrow> 'a \<Rightarrow> (('t, 'e) raw \<Rightarrow> ('t, 'e, 'a) result) \<Rightarrow> ('t, 'e) dict \<Rightarrow>
   ('t, 'e, 'a) result" where
  "default_field name dflt validate input_data =
     (case map_of input_data name of
        None \<Rightarrow> ok dflt
      | Some v \<Rightarrow> at_loc (Key name) (validate v))"

text \<open>
  \<^verbatim>\<open>ModelField.validate\<close> without pre-validators: \<^verbatim>\<open>None\<close> is returned as it is
  when the field allows it (an \<^verbatim>\<open>Optional\<close> annotation) and is
  \<^verbatim>\<open>NoneIsNotAllowedError\<close> otherwise; any other value goes to the validators of the
  type.
\<close>

definition not_none ::
  "(('t, 'e) raw \<Rightarrow> ('t, 'e, 'a) result) \<Rightarrow> ('t, 'e) raw \<Rightarrow> ('t, 'e, 'a) result" where
  "not_none validate v = (case v of RNull \<Rightarrow> fail NoneIsNotAllowedError | _ \<Rightarrow> validate v)"

definition allow_none ::
  "(('t, 'e) raw \<Rightarrow> ('t, 'e, 'a) result) \<Rightarrow> ('t, 'e) raw \<Rightarrow> ('t, 'e, 'a option) result" where
  "allow_none validate v =
     (case v of RNull \<Rightarrow> ok None | _ \<Rightarrow> ap (ok Some) (validate v))"

definition single ::
  "(('t, 'e) raw \<Rightarrow> ('t, 'e) error + 'a) \<Rightarrow> ('t, 'e) raw \<Rightarrow> ('t, 'e, 'a) result" where
  "single validator v = (case validator v of Inl e \<Rightarrow> fail e | Inr x \<Rightarrow> ok x)"

text \<open>
  A field of type \<^verbatim>\<open>datetime\<close> whose pre-validator returns \<^verbatim>\<open>None\<close> or a
  \<^verbatim>\<open>datetime\<close> instance: the pre-validator runs first, then the test for \<^verbatim>\<open>None\<close>;
  the validator of the type returns an instance as it is.
\<close>

definition pre_datetime ::
  "(('t, 'e) raw \<Rightarrow> ('t, 'e) error + 't option) \<Rightarrow> ('t, 'e) raw \<Rightarrow> ('t, 'e, 't) result" where
  "pre_datetime pre v =
     (case pre v of
        Inl e \<Rightarrow> fail e
      | Inr None \<Rightarrow> fail NoneIsNotAllowedError
      | Inr (Some t) \<Rightarrow> ok t)"

definition pre_optional_datetime ::
  "(('t, 'e) raw \<Rightarrow> ('t, 'e) error + 't option) \<Rightarrow> ('t, 'e) raw \<Rightarrow>
   ('t, 'e, 't option) result" where
  "pre_optional_datetime pre v = (case pre v of Inl e \<Rightarrow> fail e | Inr r \<Rightarrow> ok r)"

text \<open>
  The constructor call \<^verbatim>\<open>cls(**d)\<close>. \<^verbatim>\<open>BaseModel.__init__\<close> names its first parameter
  \<^verbatim>\<open>__pydantic_self__\<close>, so Python rejects a dict that has this key with a
  \<^verbatim>\<open>TypeError\<close>, before any field is validated; otherwise the constructor runs
  \<^verbatim>\<open>validate_model\<close> of the class, here \<open>validate\<close>.
\<close>

definition construct ::
  "(('t, 'e) dict \<Rightarrow> ('t, 'e, 'a) result) \<Rightarrow> ('t, 'e) dict \<Rightarrow> ('t, 'e, 'a) result" where
  "construct validate d =
     (case map_of d ''__pydantic_self__'' of
        Some v \<Rightarrow> fail MultipleValuesError
      | None \<Rightarrow> validate d)"

text \<open>
  \<^verbatim>\<open>Model.validate\<close>, the validator of a field whose type is a model: a dict is given to
  the constructor, any other value is given to \<^verbatim>\<open>dict\<close> first.
\<close>

definition model_validate ::
  "(('t, 'e) dict \<Rightarrow> ('t, 'e, 'a) result) \<Rightarrow> ('t, 'e) raw \<Rightarrow> ('t, 'e, 'a) result" where
  "model_validate validate v =
     (case v of
        RDict d \<Rightarrow> construct validate d
      | _ \<Rightarrow>
          (case py_dict v of
             None \<Rightarrow> fail DictError
           | Some items \<Rightarrow>
               (case kwargs items of
                  None \<Rightarrow> fail KeywordsMustBeStrings
                | Some d \<Rightarrow> construct validate d)))"

text \<open>
  A field of a list type: the value is a list, and every item goes to the validators of
  the item type (without the test for \<^verbatim>\<open>None\<close> of a field).
\<close>

fun validate_items ::
  "(('t, 'e) raw \<Rightarrow> ('t, 'e, 'a) result) \<Rightarrow> nat \<Rightarrow> ('t, 'e) raw list \<Rightarrow>
   ('t, 'e, 'a list) result" where
  "validate_items validate i [] = ok []"
| "validate_items validate i (x # xs) =
     ap (ap (ok Cons) (at_loc (Index i) (validate x))) (validate_items validate (Suc i) xs)"

definition list_validate ::
  "(('t, 'e) raw \<Rightarrow> ('t, 'e, 'a) result) \<Rightarrow> ('t, 'e) raw \<Rightarrow> ('t, 'e, 'a list) result" where
  "list_validate validate v =
     (case v of RList xs \<Rightarrow> validate_items validate 0 xs | _ \<Rightarrow> fail ListError)"

text \<open>The keys of the input that are not fields, kept by \<^verbatim>\<open>extra=Extra.allow\<close>.\<close>

definition extra_fields :: "string list \<Rightarrow> ('t, 'e) dict \<Rightarrow> ('t, 'e) dict" where
  "extra_fields names input_data = filter (\<lambda>(k, v). k \<notin> set names) input_data"

subsection \<open>The validators of the types\<close>

fun str_validator :: "('t, 'e) lib \<Rightarrow> ('t, 'e) raw \<Rightarrow> ('t, 'e) error + string" where
  "str_validator L (RStr s) = Inr s"
| "str_validator L (RInt n) =
     (case py_str_int n of Inl x \<Rightarrow> Inl (Raised x) | Inr s \<Rightarrow> Inr s)"
| "str_validator L (RBool b) = Inr (if b then ''True'' else ''False'')"
| "str_validator L (RFloat f) = Inr (repr_float L f)"
| "str_validator L v = Inl StrError"

definition int_validator :: "('t, 'e) raw \<Rightarrow> ('t, 'e) error + int" where
  "int_validator v = (case py_int v of IntValue n \<Rightarrow> Inr n | _ \<Rightarrow> Inl IntegerError)"

fun bool_validator :: "('t, 'e) raw \<Rightarrow> ('t, 'e) error + bool" where
  "bool_validator (RBool b) = Inr b"
| "bool_validator (RInt n) =
     (if n = 1 then Inr True else if n = 0 then Inr False else Inl BoolError)"
| "bool_validator (RFloat f) =
     (if float_number f = Some 1 then Inr True
      else if float_number f = Some 0 then Inr False else Inl BoolError)"
| "bool_validator (RStr s) =
     (if lower s \<in> {''1'', ''on'', ''t'', ''true'', ''y'', ''yes''} then Inr True
      else if lower s \<in> {''0'', ''off'', ''f'', ''false'', ''n'', ''no''} then Inr False
      else Inl BoolError)"
| "bool_validator v = Inl BoolError"

text \<open>
  A field whose type is an \<^verbatim>\<open>IntEnum\<close>: \<^verbatim>\<open>int_validator\<close>, then the member of that
  value.
\<close>

definition enum_validator ::
  "(int \<Rightarrow> 'a option) \<Rightarrow> int list \<Rightarrow> ('t, 'e) raw \<Rightarrow> ('t, 'e) error + 'a" where
  "enum_validator member values v =
     (case int_validator v of
        Inl e \<Rightarrow> Inl e
      | Inr n \<Rightarrow> (case member n of None \<Rightarrow> Inl (EnumMemberError values) | Some x \<Rightarrow> Inr x))"

text \<open>
  A field of type \<^verbatim>\<open>Dict[str, Any]\<close>. A dict with string keys is returned as it is;
  another value is given to \<^verbatim>\<open>dict\<close>, every key is validated as a \<^verbatim>\<open>str\<close>, and the
  result is built key by key.
\<close>

fun mapping_items ::
  "('t, 'e) lib \<Rightarrow> (('t, 'e) raw \<times> ('t, 'e) raw) list \<Rightarrow> ('t, 'e, ('t, 'e) dict) result" where
  "mapping_items L [] = ok []"
| "mapping_items L ((k, v) # d) =
     ap (ap (ok (\<lambda>k' r. (k', v) # r))
           (at_loc (Key ''__key__'') (not_none (single (str_validator L)) k)))
        (mapping_items L d)"

definition dict_validate ::
  "('t, 'e) lib \<Rightarrow> ('t, 'e) raw \<Rightarrow> ('t, 'e, ('t, 'e) dict) result" where
  "dict_validate L v =
     (case v of
        RDict d \<Rightarrow> ok d
      | _ \<Rightarrow>
          (case py_dict v of
             None \<Rightarrow> fail DictError
           | Some items \<Rightarrow>
               ap (ok (foldl (\<lambda>r (k, x). setitem (=) r k x) [])) (mapping_items L items)))"

section \<open>The models of \<^verbatim>\<open>models.py\<close>\<close>

text \<open>
  Each class is a record of its fields, in the order pydantic validates them, and a
  function from the input dict to the record or the errors. A class declared with
  \<^verbatim>\<open>extra=Extra.allow\<close> keeps the other keys of the input in its last field; another
  class ignores them. A field of a record is named after the class and the field.
\<close>

subsection \<open>Channel, Guild, User\<close>

datatype ChannelType = TEXT | VOICE | CATEGORY | DIRECT

fun ChannelType_member :: "int \<Rightarrow> ChannelType option" where
  "ChannelType_member n =
     (if n = 0 then Some TEXT else if n = 1 then Some VOICE
      else if n = 2 then Some CATEGORY else if n = 3 then Some DIRECT else None)"

record ('t, 'e) Channel =
  channel_id :: string
  channel_name :: "string option"
  channel_type :: ChannelType
  channel_parent_id :: "string option"
  channel_extra :: "('t, 'e) dict"

definition validate_Channel :: "('t, 'e) lib \<Rightarrow> ('t, 'e) dict \<Rightarrow> ('t, 'e, ('t, 'e) Channel) result" where
  "validate_Channel L input_data =
     ap (ap (ap (ap (ap (ok (\<lambda>i n t p x.
       \<lparr>channel_id = i, channel_name = n, channel_type = t, channel_parent_id = p,
        channel_extra = x\<rparr>))
       (required_field ''id'' (not_none (single (str_validator L))) input_data))
       (default_field ''name'' None (allow_none (single (str_validator L))) input_data))
       (required_field ''type''
          (not_none (single (enum_validator ChannelType_member [0, 1, 2, 3]))) input_data))
       (default_field ''parent_id'' None (allow_none (single (str_validator L))) input_data))
       (ok (extra_fields [''id'', ''name'', ''type'', ''parent_id''] input_data))"

record ('t, 'e) Guild =
  guild_id :: string
  guild_name :: string
  guild_avatar :: "string option"
  guild_extra :: "('t, 'e) dict"

definition validate_Guild :: "('t, 'e) lib \<Rightarrow> ('t, 'e) dict \<Rightarrow> ('t, 'e, ('t, 'e) Guild) result" where
  "validate_Guild L input_data =
     ap (ap (ap (ap (ok (\<lambda>i n a x.
       \<lparr>guild_id = i, guild_name = n, guild_avatar = a, guild_extra = x\<rparr>))
       (required_field ''id'' (not_none (single (str_validator L))) input_data))
       (required_field ''name'' (not_none (single (str_validator L))) input_data))
       (default_field ''avatar'' None (allow_none (single (str_validator L))) input_data))
       (ok (extra_fields [''id'', ''name'', ''avatar''] input_data))"

record ('t, 'e) User =
  user_id :: string
  user_name :: "string option"
  user_avatar :: "string option"
  user_is_bot :: "bool option"
  user_extra :: "('t, 'e) dict"

definition validate_User :: "('t, 'e) lib \<Rightarrow> ('t, 'e) dict \<Rightarrow> ('t, 'e, ('t, 'e) User) result" where
  "validate_User L input_data =
     ap (ap (ap (ap (ap (ok (\<lambda>i n a b x.
       \<lparr>user_id = i, user_name = n, user_avatar = a, user_is_bot = b, user_extra = x\<rparr>))
       (required_field ''id'' (not_none (single (str_validator L))) input_data))
       (default_field ''name'' None (allow_none (single (str_validator L))) input_data))
       (default_field ''avatar'' None (allow_none (single (str_validator L))) input_data))
       (default_field ''is_bot'' None (allow_none (single bool_validator)) input_data))
       (ok (extra_fields [''id'', ''name'', ''avatar'', ''is_bot''] input_data))"

subsection \<open>InnerMember and OuterMember\<close>

record ('t, 'e) InnerMember =
  member_user :: "('t, 'e) User option"
  member_name :: "string option"
  member_avatar :: "string option"
  member_joined_at :: "'t option"
  member_extra :: "('t, 'e) dict"

definition parse_joined_at ::
  "('t, 'e) lib \<Rightarrow> ('t, 'e) raw \<Rightarrow> ('t, 'e) error + 't option" where
  "parse_joined_at L v =
     (case v of
        RNull \<Rightarrow> Inr None
      | RDatetime t \<Rightarrow> Inr (Some t)
      | _ \<Rightarrow>
          (case py_int v of
             IntValueError \<Rightarrow> Inl (InvalidTimestamp v)
           | IntTypeErr \<Rightarrow> Inl (IntTypeError v)
           | IntOverflowError \<Rightarrow>
               Inl (Raised (OverflowError ''cannot convert float infinity to integer''))
           | IntValue timestamp \<Rightarrow>
               (case fromtimestamp L (of_int timestamp / 1000) of
                  Inl msg \<Rightarrow> Inl (Raised msg)
                | Inr t \<Rightarrow> Inr (Some t))))"

definition validate_InnerMember ::
  "('t, 'e) lib \<Rightarrow> ('t, 'e) dict \<Rightarrow> ('t, 'e, ('t, 'e) InnerMember) result" where
  "validate_InnerMember L input_data =
     ap (ap (ap (ap (ap (ok (\<lambda>u n a j x.
       \<lparr>member_user = u, member_name = n, member_avatar = a, member_joined_at = j,
        member_extra = x\<rparr>))
       (default_field ''user'' None (allow_none (model_validate (validate_User L))) input_data))
       (default_field ''name'' None (allow_none (single (str_validator L))) input_data))
       (default_field ''avatar'' None (allow_none (single (str_validator L))) input_data))
       (default_field ''joined_at'' None (pre_optional_datetime (parse_joined_at L))
          input_data))
       (ok (extra_fields [''user'', ''name'', ''avatar'', ''joined_at''] input_data))"

text \<open>
  \<^verbatim>\<open>OuterMember\<close> declares \<^verbatim>\<open>user\<close> and \<^verbatim>\<open>joined_at\<close> again, without \<^verbatim>\<open>Optional\<close> and
  without a default: both are required. It inherits the other fields, the validator of
  \<^verbatim>\<open>joined_at\<close> and the configuration.
\<close>

record ('t, 'e) OuterMember =
  outer_member_user :: "('t, 'e) User"
  outer_member_name :: "string option"
  outer_member_avatar :: "string option"
  outer_member_joined_at :: 't
  outer_member_extra :: "('t, 'e) dict"

definition validate_OuterMember ::
  "('t, 'e) lib \<Rightarrow> ('t, 'e) dict \<Rightarrow> ('t, 'e, ('t, 'e) OuterMember) result" where
  "validate_OuterMember L input_data =
     ap (ap (ap (ap (ap (ok (\<lambda>u n a j x.
       \<lparr>outer_member_user = u, outer_member_name = n, outer_member_avatar = a,
        outer_member_joined_at = j, outer_member_extra = x\<rparr>))
       (required_field ''user'' (not_none (model_validate (validate_User L))) input_data))
       (default_field ''name'' None (allow_none (single (str_validator L))) input_data))
       (default_field ''avatar'' None (allow_none (single (str_validator L))) input_data))
       (required_field ''joined_at'' (pre_datetime (parse_joined_at L)) input_data))
       (ok (extra_fields [''user'', ''name'', ''avatar'', ''joined_at''] input_data))"

subsection \<open>Role and Login\<close>

record ('t, 'e) Role =
  role_id :: string
  role_name :: string
  role_extra :: "('t, 'e) dict"

definition validate_Role :: "('t, 'e) lib \<Rightarrow> ('t, 'e) dict \<Rightarrow> ('t, 'e, ('t, 'e) Role) result" where
  "validate_Role L input_data =
     ap (ap (ap (ok (\<lambda>i n x. \<lparr>role_id = i, role_name = n, role_extra = x\<rparr>))
       (required_field ''id'' (not_none (single (str_validator L))) input_data))
       (required_field ''name'' (not_none (single (str_validator L))) input_data))
       (ok (extra_fields [''id'', ''name''] input_data))"

datatype LoginStatus = OFFLINE | ONLINE | CONNECT | DISCONNECT | RECONNECT

fun LoginStatus_member :: "int \<Rightarrow> LoginStatus option" where
  "LoginStatus_member n =
     (if n = 0 then Some OFFLINE else if n = 1 then Some ONLINE
      else if n = 2 then Some CONNECT else if n = 3 then Some DISCONNECT
      else if n = 4 then Some RECONNECT else None)"

record ('t, 'e) Login =
  login_user :: "('t, 'e) User option"
  login_self_id :: "string option"
  login_platform :: "string option"
  login_status :: LoginStatus
  login_extra :: "('t, 'e) dict"

definition validate_Login :: "('t, 'e) lib \<Rightarrow> ('t, 'e) dict \<Rightarrow> ('t, 'e, ('t, 'e) Login) result" where
  "validate_Login L input_data =
     ap (ap (ap (ap (ap (ok (\<lambda>u s p t x.
       \<lparr>login_user = u, login_self_id = s, login_platform = p, login_status = t,
        login_extra = x\<rparr>))
       (default_field ''user'' None (allow_none (model_validate (validate_User L))) input_data))
       (default_field ''self_id'' None (allow_none (single (str_validator L))) input_data))
       (default_field ''platform'' None (allow_none (single (str_validator L))) input_data))
       (required_field ''status''
          (not_none (single (enum_validator LoginStatus_member [0, 1, 2, 3, 4]))) input_data))
       (ok (extra_fields [''user'', ''self_id'', ''platform'', ''status''] input_data))"

subsection \<open>Opcode and the payloads without an event\<close>

datatype Opcode = EVENT | PING | PONG | IDENTIFY | READY

fun Opcode_value :: "Opcode \<Rightarrow> int" where
  "Opcode_value EVENT = 0"
| "Opcode_value PING = 1"
| "Opcode_value PONG = 2"
| "Opcode_value IDENTIFY = 3"
| "Opcode_value READY = 4"

fun Opcode_member :: "int \<Rightarrow> Opcode option" where
  "Opcode_member n =
     (if n = 0 then Some EVENT else if n = 1 then Some PING
      else if n = 2 then Some PONG else if n = 3 then Some IDENTIFY
      else if n = 4 then Some READY else None)"

text \<open>
  A field of type \<^verbatim>\<open>Literal[Opcode.X]\<close>: the value is looked up in the dict of the
  permitted values, by Python's hash and equality; the members of an \<^verbatim>\<open>IntEnum\<close> are
  integers.
\<close>

definition literal_validator :: "Opcode \<Rightarrow> ('t, 'e) raw \<Rightarrow> ('t, 'e) error + Opcode" where
  "literal_validator c v =
     (if py_eq v (RInt (Opcode_value c)) then Inr c
      else Inl (WrongConstantError v (Opcode_value c)))"

record ('t, 'e) Payload =
  payload_op :: Opcode
  payload_body :: "('t, 'e) dict option"

definition validate_Payload :: "('t, 'e) lib \<Rightarrow> ('t, 'e) dict \<Rightarrow> ('t, 'e, ('t, 'e) Payload) result" where
  "validate_Payload L input_data =
     ap (ap (ok (\<lambda>c b. \<lparr>payload_op = c, payload_body = b\<rparr>))
       (required_field ''op''
          (not_none (single (enum_validator Opcode_member [0, 1, 2, 3, 4]))) input_data))
       (default_field ''body'' None (allow_none (dict_validate L)) input_data)"

record Identify =
  identify_token :: "string option"
  identify_sequence :: "int option"

definition validate_Identify :: "('t, 'e) lib \<Rightarrow> ('t, 'e) dict \<Rightarrow> ('t, 'e, Identify) result" where
  "validate_Identify L input_data =
     ap (ap (ok (\<lambda>t n. \<lparr>identify_token = t, identify_sequence = n\<rparr>))
       (default_field ''token'' None (allow_none (single (str_validator L))) input_data))
       (default_field ''sequence'' None (allow_none (single int_validator)) input_data)"

record ('t, 'e) Ready =
  ready_logins :: "('t, 'e) Login list"

definition validate_Ready :: "('t, 'e) lib \<Rightarrow> ('t, 'e) dict \<Rightarrow> ('t, 'e, ('t, 'e) Ready) result" where
  "validate_Ready L input_data =
     ap (ok (\<lambda>ls. \<lparr>ready_logins = ls\<rparr>))
       (required_field ''logins''
          (not_none (list_validate (model_validate (validate_Login L)))) input_data)"

text \<open>
  The subclasses of \<^verbatim>\<open>Payload\<close> declare \<^verbatim>\<open>op\<close> again with a default, so an absent
  \<^verbatim>\<open>op\<close> takes it; \<^verbatim>\<open>IdentifyPayload\<close>, \<^verbatim>\<open>ReadyPayload\<close> and \<^verbatim>\<open>EventPayload\<close> declare
  \<^verbatim>\<open>body\<close> again, without a default: it is required. \<^verbatim>\<open>PingPayload\<close> and
  \<^verbatim>\<open>PongPayload\<close> inherit the field \<^verbatim>\<open>body\<close> of \<^verbatim>\<open>Payload\<close>.
\<close>

record IdentifyPayload =
  identify_payload_op :: Opcode
  identify_payload_body :: Identify

definition validate_IdentifyPayload ::
  "('t, 'e) lib \<Rightarrow> ('t, 'e) dict \<Rightarrow> ('t, 'e, IdentifyPayload) result" where
  "validate_IdentifyPayload L input_data =
     ap (ap (ok (\<lambda>c b. \<lparr>identify_payload_op = c, identify_payload_body = b\<rparr>))
       (default_field ''op'' IDENTIFY (not_none (single (literal_validator IDENTIFY)))
          input_data))
       (required_field ''body'' (not_none (model_validate (validate_Identify L))) input_data)"

record ('t, 'e) ReadyPayload =
  ready_payload_op :: Opcode
  ready_payload_body :: "('t, 'e) Ready"

definition validate_ReadyPayload ::
  "('t, 'e) lib \<Rightarrow> ('t, 'e) dict \<Rightarrow> ('t, 'e, ('t, 'e) ReadyPayload) result" where
  "validate_ReadyPayload L input_data =
     ap (ap (ok (\<lambda>c b. \<lparr>ready_payload_op = c, ready_payload_body = b\<rparr>))
       (default_field ''op'' READY (not_none (single (literal_validator READY))) input_data))
       (required_field ''body'' (not_none (model_validate (validate_Ready L))) input_data)"

definition validate_PingPayload :: "('t, 'e) lib \<Rightarrow> ('t, 'e) dict \<Rightarrow> ('t, 'e, ('t, 'e) Payload) result" where
  "validate_PingPayload L input_data =
     ap (ap (ok (\<lambda>c b. \<lparr>payload_op = c, payload_body = b\<rparr>))
       (default_field ''op'' PING (not_none (single (literal_validator PING))) input_data))
       (default_field ''body'' None (allow_none (dict_validate L)) input_data)"

definition validate_PongPayload :: "('t, 'e) lib \<Rightarrow> ('t, 'e) dict \<Rightarrow> ('t, 'e, ('t, 'e) Payload) result" where
  "validate_PongPayload L input_data =
     ap (ap (ok (\<lambda>c b. \<lparr>payload_op = c, payload_body = b\<rparr>))
       (default_field ''op'' PONG (not_none (single (literal_validator PONG))) input_data))
       (default_field ''body'' None (allow_none (dict_validate L)) input_data)"

subsection \<open>InnerMessage and OuterMessage\<close>

record ('t, 'e) InnerMessage =
  message_id :: string
  message_content :: "'e list"
  message_channel :: "('t, 'e) Channel option"
  message_guild :: "('t, 'e) Guild option"
  message_member :: "('t, 'e) InnerMember option"
  message_user :: "('t, 'e) User option"
  message_created_at :: "'t option"
  message_updated_at :: "'t option"
  message_extra :: "('t, 'e) dict"

text \<open>
  The pre root validator: it sees the input dict before any field, and returns the dict
  that the fields are then read from.
\<close>

definition content_warning :: log_record where
  "content_warning =
     (''WARNING'',
      ''received message without content, this may be caused by a bug of Satori Server.'')"

definition ensure_content :: "('t, 'e) dict \<Rightarrow> ('t, 'e) dict \<times> log_record list" where
  "ensure_content values =
     (case map_of values ''content'' of
        Some v \<Rightarrow> (values, [])
      | None \<Rightarrow> (values @ [(''content'', RStr ''Unknown'')], [content_warning]))"

definition parse_content ::
  "('t, 'e) lib \<Rightarrow> ('t, 'e) raw \<Rightarrow> ('t, 'e) error + ('t, 'e) raw list option" where
  "parse_content L v =
     (case v of
        RList xs \<Rightarrow> Inr (Some xs)
      | RNull \<Rightarrow> Inr None
      | RStr s \<Rightarrow>
          (case parse L s of
             Inl msg \<Rightarrow> Inl (Raised msg)
           | Inr es \<Rightarrow> Inr (Some (map RElement es)))
      | _ \<Rightarrow> Inl ContentMustBeStr)"

definition parse_created_at ::
  "('t, 'e) lib \<Rightarrow> ('t, 'e) raw \<Rightarrow> ('t, 'e) error + 't option" where
  "parse_created_at L v =
     (case v of
        RNull \<Rightarrow> Inr None
      | RDatetime t \<Rightarrow> Inr (Some t)
      | _ \<Rightarrow>
          (case py_int v of
             IntValueError \<Rightarrow> Inl (InvalidTimestamp v)
           | IntTypeErr \<Rightarrow> Inl (IntTypeError v)
           | IntOverflowError \<Rightarrow>
               Inl (Raised (OverflowError ''cannot convert float infinity to integer''))
           | IntValue timestamp \<Rightarrow>
               (case fromtimestamp L (of_int timestamp / 1000) of
                  Inl msg \<Rightarrow> Inl (Raised msg)
                | Inr t \<Rightarrow> Inr (Some t))))"

definition parse_updated_at ::
  "('t, 'e) lib \<Rightarrow> ('t, 'e) raw \<Rightarrow> ('t, 'e) error + 't option" where
  "parse_updated_at L v =
     (case v of
        RNull \<Rightarrow> Inr None
      | RDatetime t \<Rightarrow> Inr (Some t)
      | _ \<Rightarrow>
          (case py_int v of
             IntValueError \<Rightarrow> Inl (InvalidTimestamp v)
           | IntTypeErr \<Rightarrow> Inl (IntTypeError v)
           | IntOverflowError \<Rightarrow>
               Inl (Raised (OverflowError ''cannot convert float infinity to integer''))
           | IntValue timestamp \<Rightarrow>
               (case fromtimestamp L (of_int timestamp / 1000) of
                  Inl msg \<Rightarrow> Inl (Raised msg)
                | Inr t \<Rightarrow> Inr (Some t))))"

text \<open>
  An item of \<^verbatim>\<open>List[Element]\<close>: an \<^verbatim>\<open>Element\<close> instance is accepted as it is, another
  value (null too) is converted by the collaborator.
\<close>

definition validate_Element :: "('t, 'e) lib \<Rightarrow> ('t, 'e) raw \<Rightarrow> ('t, 'e, 'e) result" where
  "validate_Element L x =
     (case x of
        RElement e \<Rightarrow> ok e
      | _ \<Rightarrow> (case element_of L x of Inl msg \<Rightarrow> fail (Raised msg) | Inr e \<Rightarrow> ok e))"

text \<open>
  The field \<^verbatim>\<open>content\<close>: the pre-validator \<^verbatim>\<open>parse_content\<close>, the test for \<^verbatim>\<open>None\<close>
  (the field is not \<^verbatim>\<open>Optional\<close>), then the items.
\<close>

definition content_validate ::
  "('t, 'e) lib \<Rightarrow> ('t, 'e) raw \<Rightarrow> ('t, 'e, 'e list) result" where
  "content_validate L v =
     (case parse_content L v of
        Inl e \<Rightarrow> fail e
      | Inr None \<Rightarrow> fail NoneIsNotAllowedError
      | Inr (Some xs) \<Rightarrow> validate_items (validate_Element L) 0 xs)"

definition with_logs :: "log_record list \<Rightarrow> ('t, 'e, 'a) result \<Rightarrow> ('t, 'e, 'a) result" where
  "with_logs l r = (fst r, l @ snd r)"

definition InnerMessage_fields ::
  "('t, 'e) lib \<Rightarrow> ('t, 'e) dict \<Rightarrow> ('t, 'e, ('t, 'e) InnerMessage) result" where
  "InnerMessage_fields L input_data =
     ap (ap (ap (ap (ap (ap (ap (ap (ap (ok (\<lambda>i c ch g m u ca ua x.
       \<lparr>message_id = i, message_content = c, message_channel = ch, message_guild = g,
        message_member = m, message_user = u, message_created_at = ca,
        message_updated_at = ua, message_extra = x\<rparr>))
       (required_field ''id'' (not_none (single (str_validator L))) input_data))
       (required_field ''content'' (content_validate L) input_data))
       (default_field ''channel'' None (allow_none (model_validate (validate_Channel L)))
          input_data))
       (default_field ''guild'' None (allow_none (model_validate (validate_Guild L))) input_data))
       (default_field ''member'' None (allow_none (model_validate (validate_InnerMember L)))
          input_data))
       (default_field ''user'' None (allow_none (model_validate (validate_User L))) input_data))
       (default_field ''created_at'' None (pre_optional_datetime (parse_created_at L))
          input_data))
       (default_field ''updated_at'' None (pre_optional_datetime (parse_updated_at L))
          input_data))
       (ok (extra_fields
          [''id'', ''content'', ''channel'', ''guild'', ''member'', ''user'', ''created_at'',
           ''updated_at''] input_data))"

definition validate_InnerMessage ::
  "('t, 'e) lib \<Rightarrow> ('t, 'e) dict \<Rightarrow> ('t, 'e, ('t, 'e) InnerMessage) result" where
  "validate_InnerMessage L input_data =
     (case ensure_content input_data of
        (values, logs) \<Rightarrow> with_logs logs (InnerMessage_fields L values))"

record ('t, 'e) OuterMessage =
  outer_message_id :: string
  outer_message_content :: "'e list"
  outer_message_channel :: "('t, 'e) Channel"
  outer_message_guild :: "('t, 'e) Guild"
  outer_message_member :: "('t, 'e) InnerMember"
  outer_message_user :: "('t, 'e) User"
  outer_message_created_at :: 't
  outer_message_updated_at :: 't
  outer_message_extra :: "('t, 'e) dict"

definition OuterMessage_fields ::
  "('t, 'e) lib \<Rightarrow> ('t, 'e) dict \<Rightarrow> ('t, 'e, ('t, 'e) OuterMessage) result" where
  "OuterMessage_fields L input_data =
     ap (ap (ap (ap (ap (ap (ap (ap (ap (ok (\<lambda>i c ch g m u ca ua x.
       \<lparr>outer_message_id = i, outer_message_content = c, outer_message_channel = ch,
        outer_message_guild = g, outer_message_member = m, outer_message_user = u,
        outer_message_created_at = ca, outer_message_updated_at = ua,
        outer_message_extra = x\<rparr>))
       (required_field ''id'' (not_none (single (str_validator L))) input_data))
       (required_field ''content'' (content_validate L) input_data))
       (required_field ''channel'' (not_none (model_validate (validate_Channel L))) input_data))
       (required_field ''guild'' (not_none (model_validate (validate_Guild L))) input_data))
       (required_field ''member'' (not_none (model_validate (validate_InnerMember L)))
          input_data))
       (required_field ''user'' (not_none (model_validate (validate_User L))) input_data))
       (required_field ''created_at'' (pre_datetime (parse_created_at L)) input_data))
       (required_field ''updated_at'' (pre_datetime (parse_updated_at L)) input_data))
       (ok (extra_fields
          [''id'', ''content'', ''channel'', ''guild'', ''member'', ''user'', ''created_at'',
           ''updated_at''] input_data))"

definition validate_OuterMessage ::
  "('t, 'e) lib \<Rightarrow> ('t, 'e) dict \<Rightarrow> ('t, 'e, ('t, 'e) OuterMessage) result" where
  "validate_OuterMessage L input_data =
     (case ensure_content input_data of
        (values, logs) \<Rightarrow> with_logs logs (OuterMessage_fields L values))"

subsection \<open>Event, EventPayload and PayloadType\<close>

record ('t, 'e) Event =
  event_id :: int
  event_type :: string
  event_platform :: string
  event_self_id :: string
  event_timestamp :: 't
  event_channel :: "('t, 'e) Channel option"
  event_guild :: "('t, 'e) Guild option"
  event_login :: "('t, 'e) Login option"
  event_member :: "('t, 'e) InnerMember option"
  event_message :: "('t, 'e) InnerMessage option"
  event_operator :: "('t, 'e) User option"
  event_role :: "('t, 'e) Role option"
  event_user :: "('t, 'e) User option"
  event_extra :: "('t, 'e) dict"

definition parse_timestamp ::
  "('t, 'e) lib \<Rightarrow> ('t, 'e) raw \<Rightarrow> ('t, 'e) error + 't option" where
  "parse_timestamp L v =
     (case v of
        RNull \<Rightarrow> Inr None
      | RDatetime t \<Rightarrow> Inr (Some t)
      | _ \<Rightarrow>
          (case py_int v of
             IntValueError \<Rightarrow> Inl (InvalidTimestamp v)
           | IntTypeErr \<Rightarrow> Inl (IntTypeError v)
           | IntOverflowError \<Rightarrow>
               Inl (Raised (OverflowError ''cannot convert float infinity to integer''))
           | IntValue timestamp \<Rightarrow>
               (case fromtimestamp L (of_int timestamp / 1000) of
                  Inl msg \<Rightarrow> Inl (Raised msg)
                | Inr t \<Rightarrow> Inr (Some t))))"

definition validate_Event ::
  "('t, 'e) lib \<Rightarrow> ('t, 'e) dict \<Rightarrow> ('t, 'e, ('t, 'e) Event) result" where
  "validate_Event L input_data =
     ap (ap (ap (ap (ap (ap (ap (ap (ap (ap (ap (ap (ap (ap
       (ok (\<lambda>i ty p s ts ch g l m msg opr r u x.
       \<lparr>event_id = i, event_type = ty, event_platform = p, event_self_id = s,
        event_timestamp = ts, event_channel = ch, event_guild = g, event_login = l,
        event_member = m, event_message = msg, event_operator = opr, event_role = r,
        event_user = u, event_extra = x\<rparr>))
       (required_field ''id'' (not_none (single int_validator)) input_data))
       (required_field ''type'' (not_none (single (str_validator L))) input_data))
       (required_field ''platform'' (not_none (single (str_validator L))) input_data))
       (required_field ''self_id'' (not_none (single (str_validator L))) input_data))
       (required_field ''timestamp'' (pre_datetime (parse_timestamp L)) input_data))
       (default_field ''channel'' None (allow_none (model_validate (validate_Channel L)))
          input_data))
       (default_field ''guild'' None (allow_none (model_validate (validate_Guild L))) input_data))
       (default_field ''login'' None (allow_none (model_validate (validate_Login L))) input_data))
       (default_field ''member'' None (allow_none (model_validate (validate_InnerMember L)))
          input_data))
       (default_field ''message'' None (allow_none (model_validate (validate_InnerMessage L)))
          input_data))
       (default_field ''operator'' None (allow_none (model_validate (validate_User L)))
          input_data))
       (default_field ''role'' None (allow_none (model_validate (validate_Role L))) input_data))
       (default_field ''user'' None (allow_none (model_validate (validate_User L))) input_data))
       (ok (extra_fields
          [''id'', ''type'', ''platform'', ''self_id'', ''timestamp'', ''channel'', ''guild'',
           ''login'', ''member'', ''message'', ''operator'', ''role'', ''user''] input_data))"

record ('t, 'e) EventPayload =
  event_payload_op :: Opcode
  event_payload_body :: "('t, 'e) Event"

definition validate_EventPayload ::
  "('t, 'e) lib \<Rightarrow> ('t, 'e) dict \<Rightarrow> ('t, 'e, ('t, 'e) EventPayload) result" where
  "validate_EventPayload L input_data =
     ap (ap (ok (\<lambda>c b. \<lparr>event_payload_op = c, event_payload_body = b\<rparr>))
       (default_field ''op'' EVENT (not_none (single (literal_validator EVENT))) input_data))
       (required_field ''body'' (not_none (model_validate (validate_Event L))) input_data)"

text \<open>
  \<^verbatim>\<open>PayloadType\<close> is a \<^verbatim>\<open>Union\<close>, which Python flattens to its six classes in the order
  written. pydantic tries them in that order and returns the first that validates; when
  none does, the error holds the errors of all of them. An exception that leaves the
  validation of one class leaves the decoding: the classes after it are not tried.
\<close>

datatype ('t, 'e) PayloadType =
    IsEventPayload "('t, 'e) EventPayload"
  | IsPingPayload "('t, 'e) Payload"
  | IsPongPayload "('t, 'e) Payload"
  | IsIdentifyPayload IdentifyPayload
  | IsReadyPayload "('t, 'e) ReadyPayload"
  | IsPayload "('t, 'e) Payload"

fun or_else :: "('t, 'e, 'a) result \<Rightarrow> ('t, 'e, 'a) result \<Rightarrow> ('t, 'e, 'a) result" where
  "or_else (Inr x, l) r = (Inr x, l)"
| "or_else (Inl es, l) (Inr y, l') = (if escaped es then (Inl es, l) else (Inr y, l @ l'))"
| "or_else (Inl es, l) (Inl es', l') =
     (if escaped es then (Inl es, l)
      else if escaped es' then (Inl es', l @ l')
      else (Inl (es @ es'), l @ l'))"

definition validate_PayloadType ::
  "('t, 'e) lib \<Rightarrow> ('t, 'e) raw \<Rightarrow> ('t, 'e, ('t, 'e) PayloadType) result" where
  "validate_PayloadType L v =
     (case v of
        RNull \<Rightarrow> fail NoneIsNotAllowedError
      | _ \<Rightarrow>
           or_else (ap (ok IsEventPayload) (model_validate (validate_EventPayload L) v))
          (or_else (ap (ok IsPingPayload) (model_validate (validate_PingPayload L) v))
          (or_else (ap (ok IsPongPayload) (model_validate (validate_PongPayload L) v))
          (or_else (ap (ok IsIdentifyPayload) (model_validate (validate_IdentifyPayload L) v))
          (or_else (ap (ok IsReadyPayload) (model_validate (validate_ReadyPayload L) v))
                   (ap (ok IsPayload) (model_validate (validate_Payload L) v)))))))"

text \<open>
  An instance of the collaborators, to evaluate the models on concrete inputs: a
  \<^verbatim>\<open>datetime\<close> is its POSIX time in seconds, from year 1 to year 9999, and a time out of
  this range raises \<^verbatim>\<open>ValueError\<close> while the year fits a C \<^verbatim>\<open>int\<close>, \<^verbatim>\<open>OSError\<close> while
  the time fits a 64-bit \<^verbatim>\<open>time_t\<close>, and \<^verbatim>\<open>OverflowError\<close> beyond; an \<^verbatim>\<open>Element\<close> is a
  text, the parser returns its input as one text, and no other value converts to an
  \<^verbatim>\<open>Element\<close>; a float is shown as a fraction.
\<close>

definition example_lib :: "(rat, string) lib" where
  "example_lib =
     \<lparr>parse = (\<lambda>s. Inr [s]),
      element_of = (\<lambda>v. Inl (TypeError ''value is not a valid Element'')),
      fromtimestamp = (\<lambda>q.
        if - 62135596800 \<le> q \<and> q < 253402300800 then Inr q
        else if \<bar>q\<bar> < 67768036191676800 then Inl (ValueError ''year is out of range'')
        else if \<bar>q\<bar> < 9223372036854775808
          then Inl (OtherException ''OSError: Value too large for defined data type'')
        else Inl (OverflowError ''timestamp out of range for platform time_t'')),
      repr_float = (\<lambda>f.
        case f of
          Finite q \<Rightarrow> str_int (fst (quotient_of q)) @ ''/'' @ str_int (snd (quotient_of q))
        | NegZero \<Rightarrow> ''-0.0''
        | PosInf \<Rightarrow> ''inf''
        | NegInf \<Rightarrow> ''-inf''
        | NaN \<Rightarrow> ''nan'')\<rparr>"

section \<open>Properties of the combinators\<close>

lemma fst_ok [simp]: "fst (ok x) = Inr x"
  by (simp add: ok_def)

lemma snd_ok [simp]: "snd (ok x) = []"
  by (simp add: ok_def)

lemma fst_fail [simp]: "fst (fail e) = Inl [([], e)]"
  by (simp add: fail_def)

lemma snd_fail [simp]: "snd (fail e) = []"
  by (simp add: fail_def)

lemma escapes_ok [simp]: "\<not> escapes (ok x)"
  by (simp add: escapes_def)

lemma escapes_fail [simp]: "escapes (fail e) = uncaught e"
  by (simp add: escapes_def)

lemma escapes_Inl_pair [simp]: "escapes (Inl es, l) = escaped es"
  by (simp add: escapes_def)

lemma escapes_Inr_pair [simp]: "\<not> escapes (Inr x, l)"
  by (simp add: escapes_def)

lemma escapes_Inr: "fst r = Inr x \<Longrightarrow> \<not> escapes r"
  by (simp add: escapes_def)

lemma escaped_append [simp]: "escaped (es @ es') = (escaped es \<or> escaped es')"
  by (induction es) auto

lemma escaped_map_loc [simp]: "escaped (map (\<lambda>(p, e). (k # p, e)) es) = escaped es"
  by (induction es) auto

lemma fst_ap:
  "fst (ap f x) =
     (case fst f of
        Inr g \<Rightarrow> (case fst x of Inr a \<Rightarrow> Inr (g a) | Inl es \<Rightarrow> Inl es)
      | Inl es \<Rightarrow>
          if escaped es then Inl es
          else (case fst x of
                  Inr a \<Rightarrow> Inl es
                | Inl es' \<Rightarrow> if escaped es' then Inl es' else Inl (es @ es')))"
  by (cases "(f, x)" rule: ap.cases) auto

lemma snd_ap: "snd (ap f x) = (if escapes f then snd f else snd f @ snd x)"
  by (cases "(f, x)" rule: ap.cases) (auto simp: escapes_def)

lemma snd_ap_nil [simp]: "snd f = [] \<Longrightarrow> snd x = [] \<Longrightarrow> snd (ap f x) = []"
  by (simp add: snd_ap)

lemma fst_ap_Inr:
  "fst (ap f x) = Inr y \<longleftrightarrow> (\<exists>g a. fst f = Inr g \<and> fst x = Inr a \<and> y = g a)"
  by (auto simp: fst_ap split: sum.splits if_splits)

lemma escapes_ap [simp]: "escapes (ap f x) = (escapes f \<or> escapes x)"
  by (cases "(f, x)" rule: ap.cases) (auto simp: escapes_def)

lemma fst_at_loc [simp]:
  "fst (at_loc k r) = map_sum (map (\<lambda>(p, e). (k # p, e))) (\<lambda>x. x) (fst r)"
  by (simp add: at_loc_def)

lemma snd_at_loc [simp]: "snd (at_loc k r) = snd r"
  by (simp add: at_loc_def)

lemma escapes_at_loc [simp]: "escapes (at_loc k r) = escapes r"
  by (cases "fst r") (simp_all add: escapes_def)

lemma fst_with_logs [simp]: "fst (with_logs l r) = fst r"
  by (simp add: with_logs_def)

lemma snd_with_logs [simp]: "snd (with_logs l r) = l @ snd r"
  by (simp add: with_logs_def)

lemma escapes_with_logs [simp]: "escapes (with_logs l r) = escapes r"
  by (simp add: escapes_def)

lemma fst_or_else:
  "fst (or_else r s) =
     (case fst r of
        Inr x \<Rightarrow> Inr x
      | Inl es \<Rightarrow>
          if escaped es then Inl es
          else (case fst s of
                  Inr y \<Rightarrow> Inr y
                | Inl es' \<Rightarrow> if escaped es' then Inl es' else Inl (es @ es')))"
  by (cases "(r, s)" rule: or_else.cases) auto

lemma snd_or_else:
  "snd (or_else r s) =
     (case fst r of
        Inr x \<Rightarrow> snd r
      | Inl es \<Rightarrow> if escaped es then snd r else snd r @ snd s)"
  by (cases "(r, s)" rule: or_else.cases) auto

lemma has_error_ok [simp]: "\<not> has_error (ok x) e"
  by (simp add: has_error_def)

lemma has_error_with_logs [simp]: "has_error (with_logs l r) e = has_error r e"
  by (simp add: has_error_def)

lemma has_error_Inr: "fst r = Inr x \<Longrightarrow> \<not> has_error r e"
  by (simp add: has_error_def)


lemma or_else_fails:
  "fst r = Inl es \<Longrightarrow> fst s = Inl es' \<Longrightarrow> \<not> escaped es \<Longrightarrow> \<not> escaped es' \<Longrightarrow>
   fst (or_else r s) = Inl (es @ es')"
  by (simp add: fst_or_else)

lemma has_error_at_loc:
  "has_error (at_loc k r) (k # p, e) = has_error r (p, e)"
  by (cases "fst r") (auto simp: has_error_def)

lemmas field_defs =
  required_field_def default_field_def not_none_def allow_none_def single_def
  pre_datetime_def pre_optional_datetime_def model_validate_def construct_def
  list_validate_def enum_validator_def int_validator_def literal_validator_def
  extra_fields_def py_eq_def

lemmas payload_defs =
  validate_EventPayload_def validate_PingPayload_def validate_PongPayload_def
  validate_IdentifyPayload_def validate_ReadyPayload_def validate_Payload_def

lemmas entity_defs =
  validate_Channel_def validate_Guild_def validate_User_def validate_InnerMember_def
  validate_OuterMember_def validate_Role_def validate_Login_def validate_Identify_def
  validate_Ready_def validate_InnerMessage_def InnerMessage_fields_def
  validate_OuterMessage_def OuterMessage_fields_def validate_Event_def ensure_content_def
  content_validate_def parse_content_def validate_Element_def parse_joined_at_def
  parse_created_at_def parse_updated_at_def parse_timestamp_def

lemmas builtin_defs =
  int_of_str_def strip_def int_literal_def isdigit_def isspace_def digit_def str_int_def
  lower_def lower_char_def digit_char_def py_str_int_def max_str_digits_def trunc_def

lemma parse_example: "parse example_lib s = Inr [s]"
  by (simp add: example_lib_def)

lemma element_of_example:
  "element_of example_lib v = Inl (TypeError ''value is not a valid Element'')"
  by (simp add: example_lib_def)

lemma fromtimestamp_example:
  "fromtimestamp example_lib q =
     (if - 62135596800 \<le> q \<and> q < 253402300800 then Inr q
      else if \<bar>q\<bar> < 67768036191676800 then Inl (ValueError ''year is out of range'')
      else if \<bar>q\<bar> < 9223372036854775808
        then Inl (OtherException ''OSError: Value too large for defined data type'')
      else Inl (OverflowError ''timestamp out of range for platform time_t''))"
  by (simp add: example_lib_def)

lemma repr_float_example:
  "repr_float example_lib f =
     (case f of
        Finite q \<Rightarrow> str_int (fst (quotient_of q)) @ ''/'' @ str_int (snd (quotient_of q))
      | NegZero \<Rightarrow> ''-0.0''
      | PosInf \<Rightarrow> ''inf''
      | NegInf \<Rightarrow> ''-inf''
      | NaN \<Rightarrow> ''nan'')"
  by (simp add: example_lib_def)

lemmas example_lib_simps =
  parse_example element_of_example fromtimestamp_example repr_float_example

section \<open>The timestamp normalizers\<close>

text \<open>
  C3, on the code. The four timestamp validators have the same body. On a list (or a
  mapping), \<^verbatim>\<open>int(v)\<close> raises a \<^verbatim>\<open>TypeError\<close>, which the handler \<^verbatim>\<open>except ValueError\<close>
  does not catch: the failure is not \<^verbatim>\<open>ValueError("invalid timestamp: ...")\<close>. On the
  other inputs the validators do what the claim says: null gives null, a \<^verbatim>\<open>datetime\<close> is
  returned unchanged, a string that is no integer fails with the invalid-timestamp error,
  and an integer \<open>t\<close> gives \<^verbatim>\<open>datetime.fromtimestamp(t / 1000)\<close>.
\<close>

theorem timestamp_validators_on_list:
  "parse_timestamp L (RList xs) = Inl (IntTypeError (RList xs)) \<and>
   parse_joined_at L (RList xs) = Inl (IntTypeError (RList xs)) \<and>
   parse_created_at L (RList xs) = Inl (IntTypeError (RList xs)) \<and>
   parse_updated_at L (RList xs) = Inl (IntTypeError (RList xs)) \<and>
   parse_timestamp L (RDict d) = Inl (IntTypeError (RDict d)) \<and>
   parse_timestamp L (RStr ''soon'') = Inl (InvalidTimestamp (RStr ''soon'')) \<and>
   parse_timestamp L RNull = Inr None \<and>
   parse_timestamp L (RDatetime t) = Inr (Some t) \<and>
   parse_timestamp L (RInt n) =
     (case fromtimestamp L (of_int n / 1000) of
        Inr t' \<Rightarrow> Inr (Some t')
      | Inl msg \<Rightarrow> Inl (Raised msg)) \<and>
   fst (validate_Event L
     [(''id'', RInt 1), (''type'', RStr ''x''), (''platform'', RStr ''p''),
      (''self_id'', RStr ''s''), (''timestamp'', RList [])]) =
     Inl [([Key ''timestamp''], IntTypeError (RList []))]"
  by (simp add: parse_timestamp_def parse_joined_at_def parse_created_at_def
      parse_updated_at_def builtin_defs validate_Event_def fst_ap field_defs
      split: sum.splits)

lemma timestamp_validators_agree:
  "parse_joined_at = parse_timestamp \<and> parse_created_at = parse_timestamp \<and>
   parse_updated_at = parse_timestamp"
  by (simp add: fun_eq_iff parse_timestamp_def parse_joined_at_def parse_created_at_def
      parse_updated_at_def)

section \<open>The inner and the outer tier\<close>

lemma required_field_Inr:
  "fst (required_field name (not_none validate) d) = Inr x \<longleftrightarrow>
   (\<exists>v. map_of d name = Some v \<and> v \<noteq> RNull \<and> fst (validate v) = Inr x)"
  by (cases "map_of d name"; cases "the (map_of d name)"; cases "fst (validate (the (map_of d name)))")
    (auto simp: required_field_def not_none_def)

lemma optional_field_of_value:
  "map_of d name = Some v \<Longrightarrow> v \<noteq> RNull \<Longrightarrow> fst (validate v) = Inr x \<Longrightarrow>
   fst (default_field name None (allow_none validate) d) = Inr (Some x)"
  by (cases v) (simp_all add: default_field_def allow_none_def fst_ap)

lemma required_to_optional:
  "fst (required_field name (not_none validate) d) = Inr x \<Longrightarrow>
   fst (default_field name None (allow_none validate) d) = Inr (Some x)"
  by (auto simp: required_field_Inr optional_field_of_value)

lemma required_datetime_to_optional:
  "fst (required_field name (pre_datetime pre) d) = Inr t \<Longrightarrow>
   fst (default_field name None (pre_optional_datetime pre) d) = Inr (Some t)"
  by (cases "map_of d name")
    (auto simp: required_field_def default_field_def pre_datetime_def
      pre_optional_datetime_def split: sum.splits option.splits)

lemma OuterMember_is_InnerMember:
  assumes "fst (validate_OuterMember L d) = Inr m"
  shows "fst (validate_InnerMember L d) =
     Inr \<lparr>member_user = Some (outer_member_user m), member_name = outer_member_name m,
          member_avatar = outer_member_avatar m,
          member_joined_at = Some (outer_member_joined_at m),
          member_extra = outer_member_extra m\<rparr>"
  using assms
  by (auto simp: validate_OuterMember_def validate_InnerMember_def fst_ap_Inr
      dest!: required_to_optional required_datetime_to_optional)

lemma OuterMessage_is_InnerMessage:
  assumes "fst (validate_OuterMessage L d) = Inr m"
  shows "fst (validate_InnerMessage L d) =
     Inr \<lparr>message_id = outer_message_id m, message_content = outer_message_content m,
          message_channel = Some (outer_message_channel m),
          message_guild = Some (outer_message_guild m),
          message_member = Some (outer_message_member m),
          message_user = Some (outer_message_user m),
          message_created_at = Some (outer_message_created_at m),
          message_updated_at = Some (outer_message_updated_at m),
          message_extra = outer_message_extra m\<rparr>"
proof -
  obtain vs ls where ec: "ensure_content d = (vs, ls)"
    by (cases "ensure_content d")
  from assms ec obtain i c ch g mm u ca ua where
    f: "fst (required_field ''id'' (not_none (single (str_validator L))) vs) = Inr i"
      "fst (required_field ''content'' (content_validate L) vs) = Inr c"
      "fst (required_field ''channel'' (not_none (model_validate (validate_Channel L))) vs) =
         Inr ch"
      "fst (required_field ''guild'' (not_none (model_validate (validate_Guild L))) vs) = Inr g"
      "fst (required_field ''member'' (not_none (model_validate (validate_InnerMember L)))
         vs) = Inr mm"
      "fst (required_field ''user'' (not_none (model_validate (validate_User L))) vs) = Inr u"
      "fst (required_field ''created_at'' (pre_datetime (parse_created_at L)) vs) = Inr ca"
      "fst (required_field ''updated_at'' (pre_datetime (parse_updated_at L)) vs) = Inr ua"
    and m: "m = \<lparr>outer_message_id = i, outer_message_content = c,
        outer_message_channel = ch, outer_message_guild = g, outer_message_member = mm,
        outer_message_user = u, outer_message_created_at = ca,
        outer_message_updated_at = ua,
        outer_message_extra = extra_fields
          [''id'', ''content'', ''channel'', ''guild'', ''member'', ''user'', ''created_at'',
           ''updated_at''] vs\<rparr>"
    by (auto simp: validate_OuterMessage_def OuterMessage_fields_def fst_ap_Inr)
  show ?thesis
    by (simp add: validate_InnerMessage_def InnerMessage_fields_def ec fst_ap m f(1,2)
        required_to_optional [OF f(3)] required_to_optional [OF f(4)]
        required_to_optional [OF f(5)] required_to_optional [OF f(6)]
        required_datetime_to_optional [OF f(7)] required_datetime_to_optional [OF f(8)])
qed

text \<open>
  C8. A dict that \<^verbatim>\<open>OuterMember\<close> accepts is accepted by \<^verbatim>\<open>InnerMember\<close>, with the
  same fields (\<^verbatim>\<open>user\<close> and \<^verbatim>\<open>joined_at\<close> are then present); the empty dict is
  accepted by \<^verbatim>\<open>InnerMember\<close> and rejected by \<^verbatim>\<open>OuterMember\<close>. The same holds for
  \<^verbatim>\<open>OuterMessage\<close> and \<^verbatim>\<open>InnerMessage\<close>: a dict with an \<^verbatim>\<open>id\<close> and an empty
  \<^verbatim>\<open>content\<close> only is accepted by the inner class and rejected by the outer one.
\<close>

theorem outer_is_inner:
  "(\<forall>m. fst (validate_OuterMember L d) = Inr m \<longrightarrow>
      fst (validate_InnerMember L d) =
        Inr \<lparr>member_user = Some (outer_member_user m), member_name = outer_member_name m,
             member_avatar = outer_member_avatar m,
             member_joined_at = Some (outer_member_joined_at m),
             member_extra = outer_member_extra m\<rparr>) \<and>
   fst (validate_InnerMember L []) =
     Inr \<lparr>member_user = None, member_name = None, member_avatar = None,
          member_joined_at = None, member_extra = []\<rparr> \<and>
   fst (validate_OuterMember L []) =
     Inl [([Key ''user''], MissingError), ([Key ''joined_at''], MissingError)] \<and>
   (\<forall>m. fst (validate_OuterMessage L d) = Inr m \<longrightarrow>
      fst (validate_InnerMessage L d) =
        Inr \<lparr>message_id = outer_message_id m, message_content = outer_message_content m,
             message_channel = Some (outer_message_channel m),
             message_guild = Some (outer_message_guild m),
             message_member = Some (outer_message_member m),
             message_user = Some (outer_message_user m),
             message_created_at = Some (outer_message_created_at m),
             message_updated_at = Some (outer_message_updated_at m),
             message_extra = outer_message_extra m\<rparr>) \<and>
   fst (validate_InnerMessage L [(''id'', RStr ''m1''), (''content'', RList [])]) =
     Inr \<lparr>message_id = ''m1'', message_content = [], message_channel = None,
          message_guild = None, message_member = None, message_user = None,
          message_created_at = None, message_updated_at = None, message_extra = []\<rparr> \<and>
   fst (validate_OuterMessage L [(''id'', RStr ''m1''), (''content'', RList [])]) =
     Inl [([Key ''channel''], MissingError), ([Key ''guild''], MissingError),
          ([Key ''member''], MissingError), ([Key ''user''], MissingError),
          ([Key ''created_at''], MissingError), ([Key ''updated_at''], MissingError)]"
proof (intro conjI allI impI)
  fix m assume "fst (validate_OuterMember L d) = Inr m"
  then show "fst (validate_InnerMember L d) =
        Inr \<lparr>member_user = Some (outer_member_user m), member_name = outer_member_name m,
             member_avatar = outer_member_avatar m,
             member_joined_at = Some (outer_member_joined_at m),
             member_extra = outer_member_extra m\<rparr>"
    by (rule OuterMember_is_InnerMember)
next
  show "fst (validate_InnerMember L []) =
     Inr \<lparr>member_user = None, member_name = None, member_avatar = None,
          member_joined_at = None, member_extra = []\<rparr>"
    by (simp add: validate_InnerMember_def fst_ap field_defs)
next
  show "fst (validate_OuterMember L []) =
     Inl [([Key ''user''], MissingError), ([Key ''joined_at''], MissingError)]"
    by (simp add: validate_OuterMember_def fst_ap field_defs)
next
  fix m assume "fst (validate_OuterMessage L d) = Inr m"
  then show "fst (validate_InnerMessage L d) =
        Inr \<lparr>message_id = outer_message_id m, message_content = outer_message_content m,
             message_channel = Some (outer_message_channel m),
             message_guild = Some (outer_message_guild m),
             message_member = Some (outer_message_member m),
             message_user = Some (outer_message_user m),
             message_created_at = Some (outer_message_created_at m),
             message_updated_at = Some (outer_message_updated_at m),
             message_extra = outer_message_extra m\<rparr>"
    by (rule OuterMessage_is_InnerMessage)
next
  show "fst (validate_InnerMessage L [(''id'', RStr ''m1''), (''content'', RList [])]) =
     Inr \<lparr>message_id = ''m1'', message_content = [], message_channel = None,
          message_guild = None, message_member = None, message_user = None,
          message_created_at = None, message_updated_at = None, message_extra = []\<rparr>"
    by (simp add: validate_InnerMessage_def InnerMessage_fields_def ensure_content_def
        content_validate_def parse_content_def fst_ap field_defs)
next
  show "fst (validate_OuterMessage L [(''id'', RStr ''m1''), (''content'', RList [])]) =
     Inl [([Key ''channel''], MissingError), ([Key ''guild''], MissingError),
          ([Key ''member''], MissingError), ([Key ''user''], MissingError),
          ([Key ''created_at''], MissingError), ([Key ''updated_at''], MissingError)]"
    by (simp add: validate_OuterMessage_def OuterMessage_fields_def ensure_content_def
        content_validate_def parse_content_def fst_ap field_defs)
qed

theorem outer_is_inner_witness:
  "fst (validate_OuterMember example_lib
     [(''user'', RDict [(''id'', RStr ''u1'')]), (''joined_at'', RInt 1500), (''nick'', RNull)]) =
     Inr \<lparr>outer_member_user = \<lparr>user_id = ''u1'', user_name = None, user_avatar = None,
            user_is_bot = None, user_extra = []\<rparr>,
          outer_member_name = None, outer_member_avatar = None,
          outer_member_joined_at = 3 / 2, outer_member_extra = [(''nick'', RNull)]\<rparr> \<and>
   fst (validate_InnerMember example_lib
     [(''user'', RDict [(''id'', RStr ''u1'')]), (''joined_at'', RInt 1500), (''nick'', RNull)]) =
     Inr \<lparr>member_user = Some \<lparr>user_id = ''u1'', user_name = None, user_avatar = None,
            user_is_bot = None, user_extra = []\<rparr>,
          member_name = None, member_avatar = None,
          member_joined_at = Some (3 / 2), member_extra = [(''nick'', RNull)]\<rparr>"
proof -
  have outer: "fst (validate_OuterMember example_lib
     [(''user'', RDict [(''id'', RStr ''u1'')]), (''joined_at'', RInt 1500), (''nick'', RNull)]) =
     Inr \<lparr>outer_member_user = \<lparr>user_id = ''u1'', user_name = None, user_avatar = None,
            user_is_bot = None, user_extra = []\<rparr>,
          outer_member_name = None, outer_member_avatar = None,
          outer_member_joined_at = 3 / 2, outer_member_extra = [(''nick'', RNull)]\<rparr>"
    by (simp add: validate_OuterMember_def validate_User_def parse_joined_at_def fst_ap
        field_defs example_lib_def)
  show ?thesis
    using outer_is_inner [of example_lib
        "[(''user'', RDict [(''id'', RStr ''u1'')]), (''joined_at'', RInt 1500), (''nick'', RNull)]"]
      outer
    by simp
qed

section \<open>Fields and models\<close>

text \<open>
  The validation of a class succeeds when each of its fields validates, and the model
  holds the values of the fields and the other keys of the input.
\<close>

lemma Channel_of_fields:
  assumes
      "fst (required_field ''id'' (not_none (single (str_validator L))) d) = Inr i"
    and
      "fst (default_field ''name'' None (allow_none (single (str_validator L))) d) = Inr n"
    and
      "fst (required_field ''type'' (not_none (single (enum_validator ChannelType_member
        [0, 1, 2, 3]))) d) = Inr t"
    and
      "fst (default_field ''parent_id'' None (allow_none (single (str_validator L))) d) =
        Inr p"
  shows "fst (validate_Channel L d) =
     Inr
          \<lparr>channel_id = i, channel_name = n, channel_type = t, channel_parent_id =
            p, channel_extra = extra_fields [''id'', ''name'', ''type'', ''parent_id'']
            d\<rparr>"
  using assms by (simp add: validate_Channel_def fst_ap)

lemma Guild_of_fields:
  assumes
      "fst (required_field ''id'' (not_none (single (str_validator L))) d) = Inr i"
    and
      "fst (required_field ''name'' (not_none (single (str_validator L))) d) = Inr n"
    and
      "fst (default_field ''avatar'' None (allow_none (single (str_validator L))) d) = Inr
        a"
  shows "fst (validate_Guild L d) =
     Inr
          \<lparr>guild_id = i, guild_name = n, guild_avatar = a, guild_extra =
            extra_fields [''id'', ''name'', ''avatar''] d\<rparr>"
  using assms by (simp add: validate_Guild_def fst_ap)

lemma User_of_fields:
  assumes
      "fst (required_field ''id'' (not_none (single (str_validator L))) d) = Inr i"
    and
      "fst (default_field ''name'' None (allow_none (single (str_validator L))) d) = Inr n"
    and
      "fst (default_field ''avatar'' None (allow_none (single (str_validator L))) d) = Inr
        a"
    and
      "fst (default_field ''is_bot'' None (allow_none (single bool_validator)) d) = Inr b"
  shows "fst (validate_User L d) =
     Inr
          \<lparr>user_id = i, user_name = n, user_avatar = a, user_is_bot = b, user_extra
            = extra_fields [''id'', ''name'', ''avatar'', ''is_bot''] d\<rparr>"
  using assms by (simp add: validate_User_def fst_ap)

lemma Role_of_fields:
  assumes
      "fst (required_field ''id'' (not_none (single (str_validator L))) d) = Inr i"
    and
      "fst (required_field ''name'' (not_none (single (str_validator L))) d) = Inr n"
  shows "fst (validate_Role L d) =
     Inr
          \<lparr>role_id = i, role_name = n, role_extra = extra_fields [''id'', ''name'']
            d\<rparr>"
  using assms by (simp add: validate_Role_def fst_ap)

lemma Login_of_fields:
  assumes
      "fst (default_field ''user'' None (allow_none (model_validate (validate_User L))) d)
        = Inr u"
    and
      "fst (default_field ''self_id'' None (allow_none (single (str_validator L))) d) = Inr
        s"
    and
      "fst (default_field ''platform'' None (allow_none (single (str_validator L))) d) =
        Inr p"
    and
      "fst (required_field ''status'' (not_none (single (enum_validator LoginStatus_member
        [0, 1, 2, 3, 4]))) d) = Inr t"
  shows "fst (validate_Login L d) =
     Inr
          \<lparr>login_user = u, login_self_id = s, login_platform = p, login_status = t,
            login_extra = extra_fields [''user'', ''self_id'', ''platform'', ''status'']
            d\<rparr>"
  using assms by (simp add: validate_Login_def fst_ap)

lemma InnerMember_of_fields:
  assumes
      "fst (default_field ''user'' None (allow_none (model_validate (validate_User L))) d)
        = Inr u"
    and
      "fst (default_field ''name'' None (allow_none (single (str_validator L))) d) = Inr n"
    and
      "fst (default_field ''avatar'' None (allow_none (single (str_validator L))) d) = Inr
        a"
    and
      "fst (default_field ''joined_at'' None (pre_optional_datetime (parse_joined_at L)) d)
        = Inr j"
  shows "fst (validate_InnerMember L d) =
     Inr
          \<lparr>member_user = u, member_name = n, member_avatar = a, member_joined_at =
            j, member_extra = extra_fields [''user'', ''name'', ''avatar'', ''joined_at'']
            d\<rparr>"
  using assms by (simp add: validate_InnerMember_def fst_ap)

lemma OuterMember_of_fields:
  assumes
      "fst (required_field ''user'' (not_none (model_validate (validate_User L))) d) = Inr
        u"
    and
      "fst (default_field ''name'' None (allow_none (single (str_validator L))) d) = Inr n"
    and
      "fst (default_field ''avatar'' None (allow_none (single (str_validator L))) d) = Inr
        a"
    and
      "fst (required_field ''joined_at'' (pre_datetime (parse_joined_at L)) d) = Inr j"
  shows "fst (validate_OuterMember L d) =
     Inr
          \<lparr>outer_member_user = u, outer_member_name = n, outer_member_avatar = a,
            outer_member_joined_at = j, outer_member_extra = extra_fields [''user'',
            ''name'', ''avatar'', ''joined_at''] d\<rparr>"
  using assms by (simp add: validate_OuterMember_def fst_ap)

lemma InnerMessage_of_fields:
  assumes
      "fst (required_field ''id'' (not_none (single (str_validator L))) d) = Inr i"
    and
      "fst (required_field ''content'' (content_validate L) d) = Inr c"
    and
      "fst (default_field ''channel'' None (allow_none (model_validate (validate_Channel
        L))) d) = Inr ch"
    and
      "fst (default_field ''guild'' None (allow_none (model_validate (validate_Guild L)))
        d) = Inr g"
    and
      "fst (default_field ''member'' None (allow_none (model_validate (validate_InnerMember
        L))) d) = Inr m"
    and
      "fst (default_field ''user'' None (allow_none (model_validate (validate_User L))) d)
        = Inr u"
    and
      "fst (default_field ''created_at'' None (pre_optional_datetime (parse_created_at L))
        d) = Inr ca"
    and
      "fst (default_field ''updated_at'' None (pre_optional_datetime (parse_updated_at L))
        d) = Inr ua"
  shows "fst (InnerMessage_fields L d) =
     Inr
          \<lparr>message_id = i, message_content = c, message_channel = ch, message_guild
            = g, message_member = m, message_user = u, message_created_at = ca,
            message_updated_at = ua, message_extra = extra_fields [''id'', ''content'',
            ''channel'', ''guild'', ''member'', ''user'', ''created_at'', ''updated_at'']
            d\<rparr>"
  using assms by (simp add: InnerMessage_fields_def fst_ap)

lemma OuterMessage_of_fields:
  assumes
      "fst (required_field ''id'' (not_none (single (str_validator L))) d) = Inr i"
    and
      "fst (required_field ''content'' (content_validate L) d) = Inr c"
    and
      "fst (required_field ''channel'' (not_none (model_validate (validate_Channel L))) d)
        = Inr ch"
    and
      "fst (required_field ''guild'' (not_none (model_validate (validate_Guild L))) d) =
        Inr g"
    and
      "fst (required_field ''member'' (not_none (model_validate (validate_InnerMember L)))
        d) = Inr m"
    and
      "fst (required_field ''user'' (not_none (model_validate (validate_User L))) d) = Inr
        u"
    and
      "fst (required_field ''created_at'' (pre_datetime (parse_created_at L)) d) = Inr ca"
    and
      "fst (required_field ''updated_at'' (pre_datetime (parse_updated_at L)) d) = Inr ua"
  shows "fst (OuterMessage_fields L d) =
     Inr
          \<lparr>outer_message_id = i, outer_message_content = c, outer_message_channel =
            ch, outer_message_guild = g, outer_message_member = m, outer_message_user = u,
            outer_message_created_at = ca, outer_message_updated_at = ua,
            outer_message_extra = extra_fields [''id'', ''content'', ''channel'',
            ''guild'', ''member'', ''user'', ''created_at'', ''updated_at''] d\<rparr>"
  using assms by (simp add: OuterMessage_fields_def fst_ap)

lemma Event_of_fields:
  assumes
      "fst (required_field ''id'' (not_none (single int_validator)) d) = Inr i"
    and
      "fst (required_field ''type'' (not_none (single (str_validator L))) d) = Inr ty"
    and
      "fst (required_field ''platform'' (not_none (single (str_validator L))) d) = Inr p"
    and
      "fst (required_field ''self_id'' (not_none (single (str_validator L))) d) = Inr s"
    and
      "fst (required_field ''timestamp'' (pre_datetime (parse_timestamp L)) d) = Inr ts"
    and
      "fst (default_field ''channel'' None (allow_none (model_validate (validate_Channel
        L))) d) = Inr ch"
    and
      "fst (default_field ''guild'' None (allow_none (model_validate (validate_Guild L)))
        d) = Inr g"
    and
      "fst (default_field ''login'' None (allow_none (model_validate (validate_Login L)))
        d) = Inr l"
    and
      "fst (default_field ''member'' None (allow_none (model_validate (validate_InnerMember
        L))) d) = Inr m"
    and
      "fst (default_field ''message'' None (allow_none (model_validate
        (validate_InnerMessage L))) d) = Inr msg"
    and
      "fst (default_field ''operator'' None (allow_none (model_validate (validate_User L)))
        d) = Inr opr"
    and
      "fst (default_field ''role'' None (allow_none (model_validate (validate_Role L))) d)
        = Inr r"
    and
      "fst (default_field ''user'' None (allow_none (model_validate (validate_User L))) d)
        = Inr u"
  shows "fst (validate_Event L d) =
     Inr
          \<lparr>event_id = i, event_type = ty, event_platform = p, event_self_id = s,
            event_timestamp = ts, event_channel = ch, event_guild = g, event_login = l,
            event_member = m, event_message = msg, event_operator = opr, event_role = r,
            event_user = u, event_extra = extra_fields [''id'', ''type'', ''platform'',
            ''self_id'', ''timestamp'', ''channel'', ''guild'', ''login'', ''member'',
            ''message'', ''operator'', ''role'', ''user''] d\<rparr>"
  using assms by (simp add: validate_Event_def fst_ap)

lemma required_field_present:
  "fst (required_field name validate d) = Inr x \<Longrightarrow> \<exists>v. map_of d name = Some v"
  by (cases "map_of d name") (simp_all add: required_field_def)

lemma ensure_content_present: "map_of d ''content'' = Some v \<Longrightarrow> ensure_content d = (d, [])"
  by (simp add: ensure_content_def)

lemma validate_InnerMessage_present:
  "map_of d ''content'' = Some v \<Longrightarrow> validate_InnerMessage L d = InnerMessage_fields L d"
  by (simp add: validate_InnerMessage_def ensure_content_def with_logs_def)

lemma validate_OuterMessage_present:
  "map_of d ''content'' = Some v \<Longrightarrow> validate_OuterMessage L d = OuterMessage_fields L d"
  by (simp add: validate_OuterMessage_def ensure_content_def with_logs_def)

lemma construct_no_key:
  "map_of d ''__pydantic_self__'' = None \<Longrightarrow> construct validate d = validate d"
  by (simp add: construct_def)

lemma construct_key:
  "map_of d ''__pydantic_self__'' = Some v \<Longrightarrow> construct validate d = fail MultipleValuesError"
  by (simp add: construct_def)

lemma map_of_extra_fields:
  "k \<notin> set names \<Longrightarrow> map_of (extra_fields names d) k = map_of d k"
  by (induction d) (auto simp: extra_fields_def)

lemma extra_fields_subset:
  "(k, v) \<in> set (extra_fields names d) \<longleftrightarrow> (k, v) \<in> set d \<and> k \<notin> set names"
  by (auto simp: extra_fields_def)

section \<open>Open schema\<close>

text \<open>
  C7, as the code has it. Every class declared with \<^verbatim>\<open>extra=Extra.allow\<close> (\<^verbatim>\<open>Channel\<close>,
  \<^verbatim>\<open>Guild\<close>, \<^verbatim>\<open>User\<close>, \<^verbatim>\<open>Role\<close>, \<^verbatim>\<open>Login\<close>, \<^verbatim>\<open>InnerMember\<close>, \<^verbatim>\<open>OuterMember\<close>,
  \<^verbatim>\<open>InnerMessage\<close>, \<^verbatim>\<open>OuterMessage\<close>, \<^verbatim>\<open>Event\<close>) is decoded from a raw map that has no
  key \<^verbatim>\<open>__pydantic_self__\<close> as follows: whenever each declared field validates, whatever
  the other keys of the map are, the decoding succeeds, the model holds the validated
  values of the declared fields, and it holds every other key of the map with its raw
  value unchanged; each of these keys can be looked up there and gives the value it has
  in the map.
\<close>

theorem extra_keys_retained:
  assumes "map_of d ''__pydantic_self__'' = None"
  shows
  "(\<forall>i n t p.
      fst (required_field ''id'' (not_none (single (str_validator L))) d) = Inr i \<and>
      fst (default_field ''name'' None (allow_none (single (str_validator L))) d) = Inr n \<and>
      fst (required_field ''type'' (not_none (single (enum_validator ChannelType_member [0,
        1, 2, 3]))) d) = Inr t \<and>
      fst (default_field ''parent_id'' None (allow_none (single (str_validator L))) d) =
        Inr p \<longrightarrow>
      fst (construct (validate_Channel L) d) =
        Inr
          \<lparr>channel_id = i, channel_name = n, channel_type = t, channel_parent_id =
            p, channel_extra = extra_fields [''id'', ''name'', ''type'', ''parent_id'']
            d\<rparr>) \<and>
   (\<forall>i n a.
      fst (required_field ''id'' (not_none (single (str_validator L))) d) = Inr i \<and>
      fst (required_field ''name'' (not_none (single (str_validator L))) d) = Inr n \<and>
      fst (default_field ''avatar'' None (allow_none (single (str_validator L))) d) = Inr a \<longrightarrow>
      fst (construct (validate_Guild L) d) =
        Inr
          \<lparr>guild_id = i, guild_name = n, guild_avatar = a, guild_extra =
            extra_fields [''id'', ''name'', ''avatar''] d\<rparr>) \<and>
   (\<forall>i n a b.
      fst (required_field ''id'' (not_none (single (str_validator L))) d) = Inr i \<and>
      fst (default_field ''name'' None (allow_none (single (str_validator L))) d) = Inr n \<and>
      fst (default_field ''avatar'' None (allow_none (single (str_validator L))) d) = Inr a \<and>
      fst (default_field ''is_bot'' None (allow_none (single bool_validator)) d) = Inr b \<longrightarrow>
      fst (construct (validate_User L) d) =
        Inr
          \<lparr>user_id = i, user_name = n, user_avatar = a, user_is_bot = b, user_extra
            = extra_fields [''id'', ''name'', ''avatar'', ''is_bot''] d\<rparr>) \<and>
   (\<forall>i n.
      fst (required_field ''id'' (not_none (single (str_validator L))) d) = Inr i \<and>
      fst (required_field ''name'' (not_none (single (str_validator L))) d) = Inr n \<longrightarrow>
      fst (construct (validate_Role L) d) =
        Inr
          \<lparr>role_id = i, role_name = n, role_extra = extra_fields [''id'', ''name'']
            d\<rparr>) \<and>
   (\<forall>u s p t.
      fst (default_field ''user'' None (allow_none (model_validate (validate_User L))) d) =
        Inr u \<and>
      fst (default_field ''self_id'' None (allow_none (single (str_validator L))) d) = Inr
        s \<and>
      fst (default_field ''platform'' None (allow_none (single (str_validator L))) d) = Inr
        p \<and>
      fst (required_field ''status'' (not_none (single (enum_validator LoginStatus_member
        [0, 1, 2, 3, 4]))) d) = Inr t \<longrightarrow>
      fst (construct (validate_Login L) d) =
        Inr
          \<lparr>login_user = u, login_self_id = s, login_platform = p, login_status = t,
            login_extra = extra_fields [''user'', ''self_id'', ''platform'', ''status'']
            d\<rparr>) \<and>
   (\<forall>u n a j.
      fst (default_field ''user'' None (allow_none (model_validate (validate_User L))) d) =
        Inr u \<and>
      fst (default_field ''name'' None (allow_none (single (str_validator L))) d) = Inr n \<and>
      fst (default_field ''avatar'' None (allow_none (single (str_validator L))) d) = Inr a \<and>
      fst (default_field ''joined_at'' None (pre_optional_datetime (parse_joined_at L)) d)
        = Inr j \<longrightarrow>
      fst (construct (validate_InnerMember L) d) =
        Inr
          \<lparr>member_user = u, member_name = n, member_avatar = a, member_joined_at =
            j, member_extra = extra_fields [''user'', ''name'', ''avatar'', ''joined_at'']
            d\<rparr>) \<and>
   (\<forall>u n a j.
      fst (required_field ''user'' (not_none (model_validate (validate_User L))) d) = Inr u \<and>
      fst (default_field ''name'' None (allow_none (single (str_validator L))) d) = Inr n \<and>
      fst (default_field ''avatar'' None (allow_none (single (str_validator L))) d) = Inr a \<and>
      fst (required_field ''joined_at'' (pre_datetime (parse_joined_at L)) d) = Inr j \<longrightarrow>
      fst (construct (validate_OuterMember L) d) =
        Inr
          \<lparr>outer_member_user = u, outer_member_name = n, outer_member_avatar = a,
            outer_member_joined_at = j, outer_member_extra = extra_fields [''user'',
            ''name'', ''avatar'', ''joined_at''] d\<rparr>) \<and>
   (\<forall>i c ch g m u ca ua.
      fst (required_field ''id'' (not_none (single (str_validator L))) d) = Inr i \<and>
      fst (required_field ''content'' (content_validate L) d) = Inr c \<and>
      fst (default_field ''channel'' None (allow_none (model_validate (validate_Channel
        L))) d) = Inr ch \<and>
      fst (default_field ''guild'' None (allow_none (model_validate (validate_Guild L))) d)
        = Inr g \<and>
      fst (default_field ''member'' None (allow_none (model_validate (validate_InnerMember
        L))) d) = Inr m \<and>
      fst (default_field ''user'' None (allow_none (model_validate (validate_User L))) d) =
        Inr u \<and>
      fst (default_field ''created_at'' None (pre_optional_datetime (parse_created_at L))
        d) = Inr ca \<and>
      fst (default_field ''updated_at'' None (pre_optional_datetime (parse_updated_at L))
        d) = Inr ua \<longrightarrow>
      fst (construct (validate_InnerMessage L) d) =
        Inr
          \<lparr>message_id = i, message_content = c, message_channel = ch, message_guild
            = g, message_member = m, message_user = u, message_created_at = ca,
            message_updated_at = ua, message_extra = extra_fields [''id'', ''content'',
            ''channel'', ''guild'', ''member'', ''user'', ''created_at'', ''updated_at'']
            d\<rparr>) \<and>
   (\<forall>i c ch g m u ca ua.
      fst (required_field ''id'' (not_none (single (str_validator L))) d) = Inr i \<and>
      fst (required_field ''content'' (content_validate L) d) = Inr c \<and>
      fst (required_field ''channel'' (not_none (model_validate (validate_Channel L))) d) =
        Inr ch \<and>
      fst (required_field ''guild'' (not_none (model_validate (validate_Guild L))) d) = Inr
        g \<and>
      fst (required_field ''member'' (not_none (model_validate (validate_InnerMember L)))
        d) = Inr m \<and>
      fst (required_field ''user'' (not_none (model_validate (validate_User L))) d) = Inr u \<and>
      fst (required_field ''created_at'' (pre_datetime (parse_created_at L)) d) = Inr ca \<and>
      fst (required_field ''updated_at'' (pre_datetime (parse_updated_at L)) d) = Inr ua \<longrightarrow>
      fst (construct (validate_OuterMessage L) d) =
        Inr
          \<lparr>outer_message_id = i, outer_message_content = c, outer_message_channel =
            ch, outer_message_guild = g, outer_message_member = m, outer_message_user = u,
            outer_message_created_at = ca, outer_message_updated_at = ua,
            outer_message_extra = extra_fields [''id'', ''content'', ''channel'',
            ''guild'', ''member'', ''user'', ''created_at'', ''updated_at''] d\<rparr>) \<and>
   (\<forall>i ty p s ts ch g l m msg opr r u.
      fst (required_field ''id'' (not_none (single int_validator)) d) = Inr i \<and>
      fst (required_field ''type'' (not_none (single (str_validator L))) d) = Inr ty \<and>
      fst (required_field ''platform'' (not_none (single (str_validator L))) d) = Inr p \<and>
      fst (required_field ''self_id'' (not_none (single (str_validator L))) d) = Inr s \<and>
      fst (required_field ''timestamp'' (pre_datetime (parse_timestamp L)) d) = Inr ts \<and>
      fst (default_field ''channel'' None (allow_none (model_validate (validate_Channel
        L))) d) = Inr ch \<and>
      fst (default_field ''guild'' None (allow_none (model_validate (validate_Guild L))) d)
        = Inr g \<and>
      fst (default_field ''login'' None (allow_none (model_validate (validate_Login L))) d)
        = Inr l \<and>
      fst (default_field ''member'' None (allow_none (model_validate (validate_InnerMember
        L))) d) = Inr m \<and>
      fst (default_field ''message'' None (allow_none (model_validate
        (validate_InnerMessage L))) d) = Inr msg \<and>
      fst (default_field ''operator'' None (allow_none (model_validate (validate_User L)))
        d) = Inr opr \<and>
      fst (default_field ''role'' None (allow_none (model_validate (validate_Role L))) d) =
        Inr r \<and>
      fst (default_field ''user'' None (allow_none (model_validate (validate_User L))) d) =
        Inr u \<longrightarrow>
      fst (construct (validate_Event L) d) =
        Inr
          \<lparr>event_id = i, event_type = ty, event_platform = p, event_self_id = s,
            event_timestamp = ts, event_channel = ch, event_guild = g, event_login = l,
            event_member = m, event_message = msg, event_operator = opr, event_role = r,
            event_user = u, event_extra = extra_fields [''id'', ''type'', ''platform'',
            ''self_id'', ''timestamp'', ''channel'', ''guild'', ''login'', ''member'',
            ''message'', ''operator'', ''role'', ''user''] d\<rparr>) \<and>
   (\<forall>names k. k \<notin> set names \<longrightarrow> map_of (extra_fields names d) k = map_of d k)"
proof (intro conjI allI impI)
  fix i n t p
  assume f:
    "fst (required_field ''id'' (not_none (single (str_validator L))) d) = Inr i \<and>
      fst (default_field ''name'' None (allow_none (single (str_validator L))) d) = Inr n \<and>
      fst (required_field ''type'' (not_none (single (enum_validator ChannelType_member [0,
        1, 2, 3]))) d) = Inr t \<and>
      fst (default_field ''parent_id'' None (allow_none (single (str_validator L))) d) =
        Inr p"
  then show "fst (construct (validate_Channel L) d) =
        Inr
          \<lparr>channel_id = i, channel_name = n, channel_type = t, channel_parent_id =
            p, channel_extra = extra_fields [''id'', ''name'', ''type'', ''parent_id'']
            d\<rparr>"
    by (simp add: construct_no_key [OF assms] Channel_of_fields)
next
  fix i n a
  assume f:
    "fst (required_field ''id'' (not_none (single (str_validator L))) d) = Inr i \<and>
      fst (required_field ''name'' (not_none (single (str_validator L))) d) = Inr n \<and>
      fst (default_field ''avatar'' None (allow_none (single (str_validator L))) d) = Inr a"
  then show "fst (construct (validate_Guild L) d) =
        Inr
          \<lparr>guild_id = i, guild_name = n, guild_avatar = a, guild_extra =
            extra_fields [''id'', ''name'', ''avatar''] d\<rparr>"
    by (simp add: construct_no_key [OF assms] Guild_of_fields)
next
  fix i n a b
  assume f:
    "fst (required_field ''id'' (not_none (single (str_validator L))) d) = Inr i \<and>
      fst (default_field ''name'' None (allow_none (single (str_validator L))) d) = Inr n \<and>
      fst (default_field ''avatar'' None (allow_none (single (str_validator L))) d) = Inr a \<and>
      fst (default_field ''is_bot'' None (allow_none (single bool_validator)) d) = Inr b"
  then show "fst (construct (validate_User L) d) =
        Inr
          \<lparr>user_id = i, user_name = n, user_avatar = a, user_is_bot = b, user_extra
            = extra_fields [''id'', ''name'', ''avatar'', ''is_bot''] d\<rparr>"
    by (simp add: construct_no_key [OF assms] User_of_fields)
next
  fix i n
  assume f:
    "fst (required_field ''id'' (not_none (single (str_validator L))) d) = Inr i \<and>
      fst (required_field ''name'' (not_none (single (str_validator L))) d) = Inr n"
  then show "fst (construct (validate_Role L) d) =
        Inr
          \<lparr>role_id = i, role_name = n, role_extra = extra_fields [''id'', ''name'']
            d\<rparr>"
    by (simp add: construct_no_key [OF assms] Role_of_fields)
next
  fix u s p t
  assume f:
    "fst (default_field ''user'' None (allow_none (model_validate (validate_User L))) d) =
        Inr u \<and>
      fst (default_field ''self_id'' None (allow_none (single (str_validator L))) d) = Inr
        s \<and>
      fst (default_field ''platform'' None (allow_none (single (str_validator L))) d) = Inr
        p \<and>
      fst (required_field ''status'' (not_none (single (enum_validator LoginStatus_member
        [0, 1, 2, 3, 4]))) d) = Inr t"
  then show "fst (construct (validate_Login L) d) =
        Inr
          \<lparr>login_user = u, login_self_id = s, login_platform = p, login_status = t,
            login_extra = extra_fields [''user'', ''self_id'', ''platform'', ''status'']
            d\<rparr>"
    by (simp add: construct_no_key [OF assms] Login_of_fields)
next
  fix u n a j
  assume f:
    "fst (default_field ''user'' None (allow_none (model_validate (validate_User L))) d) =
        Inr u \<and>
      fst (default_field ''name'' None (allow_none (single (str_validator L))) d) = Inr n \<and>
      fst (default_field ''avatar'' None (allow_none (single (str_validator L))) d) = Inr a \<and>
      fst (default_field ''joined_at'' None (pre_optional_datetime (parse_joined_at L)) d)
        = Inr j"
  then show "fst (construct (validate_InnerMember L) d) =
        Inr
          \<lparr>member_user = u, member_name = n, member_avatar = a, member_joined_at =
            j, member_extra = extra_fields [''user'', ''name'', ''avatar'', ''joined_at'']
            d\<rparr>"
    by (simp add: construct_no_key [OF assms] InnerMember_of_fields)
next
  fix u n a j
  assume f:
    "fst (required_field ''user'' (not_none (model_validate (validate_User L))) d) = Inr u \<and>
      fst (default_field ''name'' None (allow_none (single (str_validator L))) d) = Inr n \<and>
      fst (default_field ''avatar'' None (allow_none (single (str_validator L))) d) = Inr a \<and>
      fst (required_field ''joined_at'' (pre_datetime (parse_joined_at L)) d) = Inr j"
  then show "fst (construct (validate_OuterMember L) d) =
        Inr
          \<lparr>outer_member_user = u, outer_member_name = n, outer_member_avatar = a,
            outer_member_joined_at = j, outer_member_extra = extra_fields [''user'',
            ''name'', ''avatar'', ''joined_at''] d\<rparr>"
    by (simp add: construct_no_key [OF assms] OuterMember_of_fields)
next
  fix i c ch g m u ca ua
  assume f:
    "fst (required_field ''id'' (not_none (single (str_validator L))) d) = Inr i \<and>
      fst (required_field ''content'' (content_validate L) d) = Inr c \<and>
      fst (default_field ''channel'' None (allow_none (model_validate (validate_Channel
        L))) d) = Inr ch \<and>
      fst (default_field ''guild'' None (allow_none (model_validate (validate_Guild L))) d)
        = Inr g \<and>
      fst (default_field ''member'' None (allow_none (model_validate (validate_InnerMember
        L))) d) = Inr m \<and>
      fst (default_field ''user'' None (allow_none (model_validate (validate_User L))) d) =
        Inr u \<and>
      fst (default_field ''created_at'' None (pre_optional_datetime (parse_created_at L))
        d) = Inr ca \<and>
      fst (default_field ''updated_at'' None (pre_optional_datetime (parse_updated_at L))
        d) = Inr ua"
  from f obtain v where "map_of d ''content'' = Some v"
    using required_field_present [of "''content''" "content_validate L" d c] by blast
  with f show "fst (construct (validate_InnerMessage L) d) =
        Inr
          \<lparr>message_id = i, message_content = c, message_channel = ch, message_guild
            = g, message_member = m, message_user = u, message_created_at = ca,
            message_updated_at = ua, message_extra = extra_fields [''id'', ''content'',
            ''channel'', ''guild'', ''member'', ''user'', ''created_at'', ''updated_at'']
            d\<rparr>"
    by (simp add: construct_no_key [OF assms] validate_InnerMessage_present InnerMessage_of_fields)
next
  fix i c ch g m u ca ua
  assume f:
    "fst (required_field ''id'' (not_none (single (str_validator L))) d) = Inr i \<and>
      fst (required_field ''content'' (content_validate L) d) = Inr c \<and>
      fst (required_field ''channel'' (not_none (model_validate (validate_Channel L))) d) =
        Inr ch \<and>
      fst (required_field ''guild'' (not_none (model_validate (validate_Guild L))) d) = Inr
        g \<and>
      fst (required_field ''member'' (not_none (model_validate (validate_InnerMember L)))
        d) = Inr m \<and>
      fst (required_field ''user'' (not_none (model_validate (validate_User L))) d) = Inr u \<and>
      fst (required_field ''created_at'' (pre_datetime (parse_created_at L)) d) = Inr ca \<and>
      fst (required_field ''updated_at'' (pre_datetime (parse_updated_at L)) d) = Inr ua"
  from f obtain v where "map_of d ''content'' = Some v"
    using required_field_present [of "''content''" "content_validate L" d c] by blast
  with f show "fst (construct (validate_OuterMessage L) d) =
        Inr
          \<lparr>outer_message_id = i, outer_message_content = c, outer_message_channel =
            ch, outer_message_guild = g, outer_message_member = m, outer_message_user = u,
            outer_message_created_at = ca, outer_message_updated_at = ua,
            outer_message_extra = extra_fields [''id'', ''content'', ''channel'',
            ''guild'', ''member'', ''user'', ''created_at'', ''updated_at''] d\<rparr>"
    by (simp add: construct_no_key [OF assms] validate_OuterMessage_present OuterMessage_of_fields)
next
  fix i ty p s ts ch g l m msg opr r u
  assume f:
    "fst (required_field ''id'' (not_none (single int_validator)) d) = Inr i \<and>
      fst (required_field ''type'' (not_none (single (str_validator L))) d) = Inr ty \<and>
      fst (required_field ''platform'' (not_none (single (str_validator L))) d) = Inr p \<and>
      fst (required_field ''self_id'' (not_none (single (str_validator L))) d) = Inr s \<and>
      fst (required_field ''timestamp'' (pre_datetime (parse_timestamp L)) d) = Inr ts \<and>
      fst (default_field ''channel'' None (allow_none (model_validate (validate_Channel
        L))) d) = Inr ch \<and>
      fst (default_field ''guild'' None (allow_none (model_validate (validate_Guild L))) d)
        = Inr g \<and>
      fst (default_field ''login'' None (allow_none (model_validate (validate_Login L))) d)
        = Inr l \<and>
      fst (default_field ''member'' None (allow_none (model_validate (validate_InnerMember
        L))) d) = Inr m \<and>
      fst (default_field ''message'' None (allow_none (model_validate
        (validate_InnerMessage L))) d) = Inr msg \<and>
      fst (default_field ''operator'' None (allow_none (model_validate (validate_User L)))
        d) = Inr opr \<and>
      fst (default_field ''role'' None (allow_none (model_validate (validate_Role L))) d) =
        Inr r \<and>
      fst (default_field ''user'' None (allow_none (model_validate (validate_User L))) d) =
        Inr u"
  then show "fst (construct (validate_Event L) d) =
        Inr
          \<lparr>event_id = i, event_type = ty, event_platform = p, event_self_id = s,
            event_timestamp = ts, event_channel = ch, event_guild = g, event_login = l,
            event_member = m, event_message = msg, event_operator = opr, event_role = r,
            event_user = u, event_extra = extra_fields [''id'', ''type'', ''platform'',
            ''self_id'', ''timestamp'', ''channel'', ''guild'', ''login'', ''member'',
            ''message'', ''operator'', ''role'', ''user''] d\<rparr>"
    by (simp add: construct_no_key [OF assms] Event_of_fields)
next
  fix names :: "string list" and k
  assume "k \<notin> set names"
  then show "map_of (extra_fields names d) k = map_of d k"
    by (rule map_of_extra_fields)
qed

theorem extra_keys_retained_witness:
  "fst (construct (validate_Channel example_lib)
     [(''id'', RInt 7), (''type'', RStr ''1''), (''parent_id'', RNull),
      (''custom_flag'', RBool True)]) =
     Inr \<lparr>channel_id = ''7'', channel_name = None, channel_type = VOICE,
          channel_parent_id = None, channel_extra = [(''custom_flag'', RBool True)]\<rparr> \<and>
   map_of (extra_fields [''id'', ''name'', ''type'', ''parent_id'']
     [(''id'', RInt 7), (''type'', RStr ''1''), (''parent_id'', RNull),
      (''custom_flag'', RBool True) :: string \<times> (rat, string) raw]) ''custom_flag'' =
     Some (RBool True) \<and>
   fst (construct (validate_Guild example_lib)
     [(''id'', RStr ''g1''), (''name'', RStr ''G''), (''owner'', RStr ''u1''),
      (''avatar'', RStr ''a.png'')]) =
     Inr \<lparr>guild_id = ''g1'', guild_name = ''G'', guild_avatar = Some ''a.png'',
          guild_extra = [(''owner'', RStr ''u1'')]\<rparr> \<and>
   fst (construct (validate_User example_lib)
     [(''id'', RStr ''u1''), (''nick'', RNull), (''name'', RStr ''U''),
      (''is_bot'', RStr ''yes'')]) =
     Inr \<lparr>user_id = ''u1'', user_name = Some ''U'', user_avatar = None,
          user_is_bot = Some True, user_extra = [(''nick'', RNull)]\<rparr> \<and>
   fst (construct (validate_Role example_lib)
     [(''id'', RStr ''r1''), (''name'', RStr ''admin''), (''color'', RInt 255)]) =
     Inr \<lparr>role_id = ''r1'', role_name = ''admin'', role_extra = [(''color'', RInt 255)]\<rparr> \<and>
   fst (construct (validate_Login example_lib)
     [(''user'', RDict [(''id'', RStr ''u1'')]), (''self_id'', RInt 514),
      (''platform'', RStr ''qq''), (''status'', RInt 1),
      (''features'', RList [RStr ''guild'', RStr ''reaction''])]) =
     Inr \<lparr>login_user = Some \<lparr>user_id = ''u1'', user_name = None, user_avatar = None,
            user_is_bot = None, user_extra = []\<rparr>,
          login_self_id = Some ''514'', login_platform = Some ''qq'', login_status = ONLINE,
          login_extra = [(''features'', RList [RStr ''guild'', RStr ''reaction''])]\<rparr> \<and>
   fst (construct (validate_InnerMember example_lib)
     [(''name'', RStr ''M''), (''joined_at'', RStr ''1500''), (''roles'', RList [])]) =
     Inr \<lparr>member_user = None, member_name = Some ''M'', member_avatar = None,
          member_joined_at = Some (3 / 2), member_extra = [(''roles'', RList [])]\<rparr> \<and>
   fst (construct (validate_OuterMember example_lib)
     [(''user'', RDict [(''id'', RStr ''u1'')]), (''joined_at'', RInt 1500),
      (''roles'', RList [])]) =
     Inr \<lparr>outer_member_user = \<lparr>user_id = ''u1'', user_name = None, user_avatar = None,
            user_is_bot = None, user_extra = []\<rparr>,
          outer_member_name = None, outer_member_avatar = None,
          outer_member_joined_at = 3 / 2, outer_member_extra = [(''roles'', RList [])]\<rparr> \<and>
   fst (construct (validate_InnerMessage example_lib)
     [(''id'', RStr ''m1''), (''content'', RStr ''hi''),
      (''quote'', RDict [(''id'', RStr ''m0'')])]) =
     Inr \<lparr>message_id = ''m1'', message_content = [''hi''], message_channel = None,
          message_guild = None, message_member = None, message_user = None,
          message_created_at = None, message_updated_at = None,
          message_extra = [(''quote'', RDict [(''id'', RStr ''m0'')])]\<rparr> \<and>
   fst (construct (validate_OuterMessage example_lib)
     [(''id'', RStr ''m1''), (''content'', RList [RElement ''hi'']),
      (''channel'', RDict [(''id'', RStr ''c1''), (''type'', RInt 0)]),
      (''guild'', RDict [(''id'', RStr ''g1''), (''name'', RStr ''G'')]),
      (''member'', RDict []), (''user'', RDict [(''id'', RStr ''u1'')]),
      (''created_at'', RInt 1000), (''updated_at'', RInt 2000), (''quote'', RNull)]) =
     Inr \<lparr>outer_message_id = ''m1'', outer_message_content = [''hi''],
          outer_message_channel =
            \<lparr>channel_id = ''c1'', channel_name = None, channel_type = TEXT,
             channel_parent_id = None, channel_extra = []\<rparr>,
          outer_message_guild =
            \<lparr>guild_id = ''g1'', guild_name = ''G'', guild_avatar = None, guild_extra = []\<rparr>,
          outer_message_member =
            \<lparr>member_user = None, member_name = None, member_avatar = None,
             member_joined_at = None, member_extra = []\<rparr>,
          outer_message_user =
            \<lparr>user_id = ''u1'', user_name = None, user_avatar = None, user_is_bot = None,
             user_extra = []\<rparr>,
          outer_message_created_at = 1, outer_message_updated_at = 2,
          outer_message_extra = [(''quote'', RNull)]\<rparr> \<and>
   fst (construct (validate_Event example_lib)
     [(''id'', RStr ''7''), (''type'', RStr ''message-created''), (''platform'', RStr ''qq''),
      (''self_id'', RInt 514), (''timestamp'', RInt 2500), (''_type'', RStr ''qq'')]) =
     Inr \<lparr>event_id = 7, event_type = ''message-created'', event_platform = ''qq'',
          event_self_id = ''514'', event_timestamp = 5 / 2, event_channel = None,
          event_guild = None, event_login = None, event_member = None,
          event_message = None, event_operator = None, event_role = None,
          event_user = None, event_extra = [(''_type'', RStr ''qq'')]\<rparr>"
proof -
  note defs = entity_defs field_defs builtin_defs example_lib_simps fst_ap str_nat.simps
  have 1: "fst (construct (validate_Channel example_lib)
     [(''id'', RInt 7), (''type'', RStr ''1''), (''parent_id'', RNull),
      (''custom_flag'', RBool True)]) =
     Inr \<lparr>channel_id = ''7'', channel_name = None, channel_type = VOICE,
          channel_parent_id = None, channel_extra = [(''custom_flag'', RBool True)]\<rparr> \<and>
   map_of (extra_fields [''id'', ''name'', ''type'', ''parent_id'']
     [(''id'', RInt 7), (''type'', RStr ''1''), (''parent_id'', RNull),
      (''custom_flag'', RBool True) :: string \<times> (rat, string) raw]) ''custom_flag'' =
     Some (RBool True)"
    using extra_keys_retained [of "[(''id'', RInt 7), (''type'', RStr ''1''),
      (''parent_id'', RNull), (''custom_flag'', RBool True)]" example_lib, THEN conjunct1]
    by (simp add: defs)
  have 2: "fst (construct (validate_Guild example_lib)
     [(''id'', RStr ''g1''), (''name'', RStr ''G''), (''owner'', RStr ''u1''),
      (''avatar'', RStr ''a.png'')]) =
     Inr \<lparr>guild_id = ''g1'', guild_name = ''G'', guild_avatar = Some ''a.png'',
          guild_extra = [(''owner'', RStr ''u1'')]\<rparr>"
    using extra_keys_retained [of "[(''id'', RStr ''g1''), (''name'', RStr ''G''),
      (''owner'', RStr ''u1''), (''avatar'', RStr ''a.png'')]" example_lib,
      THEN conjunct2, THEN conjunct1]
    by (simp add: defs)
  have 3: "fst (construct (validate_User example_lib)
     [(''id'', RStr ''u1''), (''nick'', RNull), (''name'', RStr ''U''),
      (''is_bot'', RStr ''yes'')]) =
     Inr \<lparr>user_id = ''u1'', user_name = Some ''U'', user_avatar = None,
          user_is_bot = Some True, user_extra = [(''nick'', RNull)]\<rparr>"
    using extra_keys_retained [of "[(''id'', RStr ''u1''), (''nick'', RNull),
      (''name'', RStr ''U''), (''is_bot'', RStr ''yes'')]" example_lib,
      THEN conjunct2, THEN conjunct2, THEN conjunct1]
    by (simp add: defs)
  have 4: "fst (construct (validate_Role example_lib)
     [(''id'', RStr ''r1''), (''name'', RStr ''admin''), (''color'', RInt 255)]) =
     Inr \<lparr>role_id = ''r1'', role_name = ''admin'', role_extra = [(''color'', RInt 255)]\<rparr>"
    using extra_keys_retained [of "[(''id'', RStr ''r1''), (''name'', RStr ''admin''),
      (''color'', RInt 255)]" example_lib,
      THEN conjunct2, THEN conjunct2, THEN conjunct2, THEN conjunct1]
    by (simp add: defs)
  have 5: "fst (construct (validate_Login example_lib)
     [(''user'', RDict [(''id'', RStr ''u1'')]), (''self_id'', RInt 514),
      (''platform'', RStr ''qq''), (''status'', RInt 1),
      (''features'', RList [RStr ''guild'', RStr ''reaction''])]) =
     Inr \<lparr>login_user = Some \<lparr>user_id = ''u1'', user_name = None, user_avatar = None,
            user_is_bot = None, user_extra = []\<rparr>,
          login_self_id = Some ''514'', login_platform = Some ''qq'', login_status = ONLINE,
          login_extra = [(''features'', RList [RStr ''guild'', RStr ''reaction''])]\<rparr>"
    using extra_keys_retained [of "[(''user'', RDict [(''id'', RStr ''u1'')]),
      (''self_id'', RInt 514), (''platform'', RStr ''qq''), (''status'', RInt 1),
      (''features'', RList [RStr ''guild'', RStr ''reaction''])]" example_lib,
      THEN conjunct2, THEN conjunct2, THEN conjunct2, THEN conjunct2, THEN conjunct1]
    by (simp add: defs)
  have 6: "fst (construct (validate_InnerMember example_lib)
     [(''name'', RStr ''M''), (''joined_at'', RStr ''1500''), (''roles'', RList [])]) =
     Inr \<lparr>member_user = None, member_name = Some ''M'', member_avatar = None,
          member_joined_at = Some (3 / 2), member_extra = [(''roles'', RList [])]\<rparr>"
    using extra_keys_retained [of "[(''name'', RStr ''M''), (''joined_at'', RStr ''1500''),
      (''roles'', RList [])]" example_lib,
      THEN conjunct2, THEN conjunct2, THEN conjunct2, THEN conjunct2, THEN conjunct2,
      THEN conjunct1]
    by (simp add: defs)
  have 7: "fst (construct (validate_OuterMember example_lib)
     [(''user'', RDict [(''id'', RStr ''u1'')]), (''joined_at'', RInt 1500),
      (''roles'', RList [])]) =
     Inr \<lparr>outer_member_user = \<lparr>user_id = ''u1'', user_name = None, user_avatar = None,
            user_is_bot = None, user_extra = []\<rparr>,
          outer_member_name = None, outer_member_avatar = None,
          outer_member_joined_at = 3 / 2, outer_member_extra = [(''roles'', RList [])]\<rparr>"
    using extra_keys_retained [of "[(''user'', RDict [(''id'', RStr ''u1'')]),
      (''joined_at'', RInt 1500), (''roles'', RList [])]" example_lib,
      THEN conjunct2, THEN conjunct2, THEN conjunct2, THEN conjunct2, THEN conjunct2,
      THEN conjunct2, THEN conjunct1]
    by (simp add: defs)
  have 8: "fst (construct (validate_InnerMessage example_lib)
     [(''id'', RStr ''m1''), (''content'', RStr ''hi''),
      (''quote'', RDict [(''id'', RStr ''m0'')])]) =
     Inr \<lparr>message_id = ''m1'', message_content = [''hi''], message_channel = None,
          message_guild = None, message_member = None, message_user = None,
          message_created_at = None, message_updated_at = None,
          message_extra = [(''quote'', RDict [(''id'', RStr ''m0'')])]\<rparr>"
    using extra_keys_retained [of "[(''id'', RStr ''m1''), (''content'', RStr ''hi''),
      (''quote'', RDict [(''id'', RStr ''m0'')])]" example_lib,
      THEN conjunct2, THEN conjunct2, THEN conjunct2, THEN conjunct2, THEN conjunct2,
      THEN conjunct2, THEN conjunct2, THEN conjunct1]
    by (simp add: defs)
  have 9: "fst (construct (validate_OuterMessage example_lib)
     [(''id'', RStr ''m1''), (''content'', RList [RElement ''hi'']),
      (''channel'', RDict [(''id'', RStr ''c1''), (''type'', RInt 0)]),
      (''guild'', RDict [(''id'', RStr ''g1''), (''name'', RStr ''G'')]),
      (''member'', RDict []), (''user'', RDict [(''id'', RStr ''u1'')]),
      (''created_at'', RInt 1000), (''updated_at'', RInt 2000), (''quote'', RNull)]) =
     Inr \<lparr>outer_message_id = ''m1'', outer_message_content = [''hi''],
          outer_message_channel =
            \<lparr>channel_id = ''c1'', channel_name = None, channel_type = TEXT,
             channel_parent_id = None, channel_extra = []\<rparr>,
          outer_message_guild =
            \<lparr>guild_id = ''g1'', guild_name = ''G'', guild_avatar = None, guild_extra = []\<rparr>,
          outer_message_member =
            \<lparr>member_user = None, member_name = None, member_avatar = None,
             member_joined_at = None, member_extra = []\<rparr>,
          outer_message_user =
            \<lparr>user_id = ''u1'', user_name = None, user_avatar = None, user_is_bot = None,
             user_extra = []\<rparr>,
          outer_message_created_at = 1, outer_message_updated_at = 2,
          outer_message_extra = [(''quote'', RNull)]\<rparr>"
    using extra_keys_retained [of "[(''id'', RStr ''m1''), (''content'', RList [RElement ''hi'']),
      (''channel'', RDict [(''id'', RStr ''c1''), (''type'', RInt 0)]),
      (''guild'', RDict [(''id'', RStr ''g1''), (''name'', RStr ''G'')]),
      (''member'', RDict []), (''user'', RDict [(''id'', RStr ''u1'')]),
      (''created_at'', RInt 1000), (''updated_at'', RInt 2000), (''quote'', RNull)]" example_lib,
      THEN conjunct2, THEN conjunct2, THEN conjunct2, THEN conjunct2, THEN conjunct2,
      THEN conjunct2, THEN conjunct2, THEN conjunct2, THEN conjunct1]
    by (simp add: defs)
  have 10: "fst (construct (validate_Event example_lib)
     [(''id'', RStr ''7''), (''type'', RStr ''message-created''), (''platform'', RStr ''qq''),
      (''self_id'', RInt 514), (''timestamp'', RInt 2500), (''_type'', RStr ''qq'')]) =
     Inr \<lparr>event_id = 7, event_type = ''message-created'', event_platform = ''qq'',
          event_self_id = ''514'', event_timestamp = 5 / 2, event_channel = None,
          event_guild = None, event_login = None, event_member = None,
          event_message = None, event_operator = None, event_role = None,
          event_user = None, event_extra = [(''_type'', RStr ''qq'')]\<rparr>"
    using extra_keys_retained [of "[(''id'', RStr ''7''), (''type'', RStr ''message-created''),
      (''platform'', RStr ''qq''), (''self_id'', RInt 514), (''timestamp'', RInt 2500),
      (''_type'', RStr ''qq'')]" example_lib,
      THEN conjunct2, THEN conjunct2, THEN conjunct2, THEN conjunct2, THEN conjunct2,
      THEN conjunct2, THEN conjunct2, THEN conjunct2, THEN conjunct2, THEN conjunct1]
    by (simp add: defs)
  from 1 2 3 4 5 6 7 8 9 10 show ?thesis
    by blast
qed

theorem extra_keys_counterexample:
  "fst (required_field ''id'' (not_none (single (str_validator example_lib)))
     [(''id'', RStr ''c1''), (''type'', RInt 0), (''__pydantic_self__'', RBool True)]) =
     Inr ''c1'' \<and>
   fst (default_field ''name'' None (allow_none (single (str_validator example_lib)))
     [(''id'', RStr ''c1''), (''type'', RInt 0), (''__pydantic_self__'', RBool True)]) =
     Inr None \<and>
   fst (required_field ''type''
     (not_none (single (enum_validator ChannelType_member [0, 1, 2, 3])))
     [(''id'', RStr ''c1''), (''type'', RInt 0),
      (''__pydantic_self__'', RBool True) :: string \<times> (rat, string) raw]) = Inr TEXT \<and>
   fst (default_field ''parent_id'' None (allow_none (single (str_validator example_lib)))
     [(''id'', RStr ''c1''), (''type'', RInt 0), (''__pydantic_self__'', RBool True)]) =
     Inr None \<and>
   fst (construct (validate_Channel example_lib)
     [(''id'', RStr ''c1''), (''type'', RInt 0), (''__pydantic_self__'', RBool True)]) =
     Inl [([], MultipleValuesError)]"
  by (simp add: entity_defs field_defs builtin_defs example_lib_simps fst_ap)

section \<open>The records sent to the log\<close>

text \<open>
  Only the root validator of a message writes to the log: the validators of the types,
  the fields and the other classes write nothing.
\<close>

lemma snd_single [simp]: "snd (single validator v) = []"
  by (simp add: single_def split: sum.splits)

lemma snd_not_none: "(\<And>v. snd (validate v) = []) \<Longrightarrow> snd (not_none validate v) = []"
  by (simp add: not_none_def split: raw.splits)

lemma snd_allow_none: "(\<And>v. snd (validate v) = []) \<Longrightarrow> snd (allow_none validate v) = []"
  by (simp add: allow_none_def split: raw.splits)

lemma snd_pre_datetime [simp]: "snd (pre_datetime pre v) = []"
  by (simp add: pre_datetime_def split: sum.splits option.splits)

lemma snd_pre_optional_datetime [simp]: "snd (pre_optional_datetime pre v) = []"
  by (simp add: pre_optional_datetime_def split: sum.splits)

lemma snd_construct:
  "(\<And>d. snd (validate d) = []) \<Longrightarrow> snd (construct validate d) = []"
  by (simp add: construct_def split: option.splits)

lemma snd_model_validate:
  "(\<And>d. snd (validate d) = []) \<Longrightarrow> snd (model_validate validate v) = []"
  by (simp add: model_validate_def snd_construct split: raw.splits option.splits)

lemma snd_required_field:
  "(\<And>v. snd (validate v) = []) \<Longrightarrow> snd (required_field name validate d) = []"
  by (simp add: required_field_def split: option.splits)

lemma snd_default_field:
  "(\<And>v. snd (validate v) = []) \<Longrightarrow> snd (default_field name dflt validate d) = []"
  by (simp add: default_field_def split: option.splits)

lemma snd_validate_items:
  "(\<And>v. snd (validate v) = []) \<Longrightarrow> snd (validate_items validate i xs) = []"
  by (induction xs arbitrary: i) simp_all

lemma snd_list_validate:
  "(\<And>v. snd (validate v) = []) \<Longrightarrow> snd (list_validate validate v) = []"
  by (simp add: list_validate_def snd_validate_items split: raw.splits)

lemma snd_mapping_items [simp]: "snd (mapping_items L items) = []"
  by (induction items) (auto simp: snd_not_none)

lemma snd_dict_validate [simp]: "snd (dict_validate L v) = []"
  by (simp add: dict_validate_def split: raw.splits option.splits)

lemma snd_validate_Element [simp]: "snd (validate_Element L x) = []"
  by (simp add: validate_Element_def split: raw.splits sum.splits)

lemma snd_content_validate [simp]: "snd (content_validate L v) = []"
  by (simp add: content_validate_def snd_validate_items
      split: sum.splits option.splits)

lemmas no_logs =
  snd_not_none snd_allow_none snd_construct snd_model_validate snd_required_field
  snd_default_field snd_list_validate

lemma snd_validate_Channel [simp]: "snd (validate_Channel L d) = []"
  by (simp add: validate_Channel_def no_logs)

lemma snd_validate_Guild [simp]: "snd (validate_Guild L d) = []"
  by (simp add: validate_Guild_def no_logs)

lemma snd_validate_User [simp]: "snd (validate_User L d) = []"
  by (simp add: validate_User_def no_logs)

lemma snd_validate_Role [simp]: "snd (validate_Role L d) = []"
  by (simp add: validate_Role_def no_logs)

lemma snd_validate_Login [simp]: "snd (validate_Login L d) = []"
  by (simp add: validate_Login_def no_logs)

lemma snd_validate_InnerMember [simp]: "snd (validate_InnerMember L d) = []"
  by (simp add: validate_InnerMember_def no_logs)

lemma snd_validate_OuterMember [simp]: "snd (validate_OuterMember L d) = []"
  by (simp add: validate_OuterMember_def no_logs)

lemma snd_validate_Identify [simp]: "snd (validate_Identify L d) = []"
  by (simp add: validate_Identify_def no_logs)

lemma snd_validate_Ready [simp]: "snd (validate_Ready L d) = []"
  by (simp add: validate_Ready_def no_logs)

lemma snd_validate_PingPayload [simp]: "snd (validate_PingPayload L d) = []"
  by (simp add: validate_PingPayload_def no_logs)

lemma snd_validate_PongPayload [simp]: "snd (validate_PongPayload L d) = []"
  by (simp add: validate_PongPayload_def no_logs)

lemma snd_validate_IdentifyPayload [simp]: "snd (validate_IdentifyPayload L d) = []"
  by (simp add: validate_IdentifyPayload_def no_logs)

lemma snd_validate_ReadyPayload [simp]: "snd (validate_ReadyPayload L d) = []"
  by (simp add: validate_ReadyPayload_def no_logs)

lemma snd_validate_Payload [simp]: "snd (validate_Payload L d) = []"
  by (simp add: validate_Payload_def no_logs)

lemma snd_InnerMessage_fields [simp]: "snd (InnerMessage_fields L d) = []"
  by (simp add: InnerMessage_fields_def no_logs)

lemma snd_OuterMessage_fields [simp]: "snd (OuterMessage_fields L d) = []"
  by (simp add: OuterMessage_fields_def no_logs)



section \<open>The payload decoder\<close>

lemma isl_ap [simp]: "isl (fst (ap f x)) = (isl (fst f) \<or> isl (fst x))"
  by (cases "(f, x)" rule: ap.cases) auto


lemma isl_at_loc [simp]: "isl (fst (at_loc k r)) = isl (fst r)"
  by (cases "fst r") auto



lemma py_eq_RInt: "py_eq v (RInt k) \<longleftrightarrow> number v = Some (of_int k)"
  by (cases "number v") (simp_all add: py_eq_def)

lemma number_py_int: "number v = Some (of_int k) \<Longrightarrow> py_int v = IntValue k"
proof (cases v)
  case (RFloat f)
  assume "number v = Some (of_int k)"
  with RFloat show ?thesis
    by (cases f) (auto simp: trunc_def)
qed (auto split: if_splits)


lemma literal_field_accepts:
  "map_of d ''op'' = Some v \<Longrightarrow> py_eq v (RInt (Opcode_value c)) \<Longrightarrow>
   fst (default_field ''op'' c (not_none (single (literal_validator c))) d) = Inr c"
  by (cases v) (simp_all add: default_field_def not_none_def single_def literal_validator_def
      py_eq_RInt)


lemma literal_field_fails:
  "map_of d ''op'' = Some v \<Longrightarrow> \<not> py_eq v (RInt (Opcode_value c)) \<Longrightarrow>
   \<exists>e. fst (default_field ''op'' c (not_none (single (literal_validator c))) d) =
     Inl [([Key ''op''], e)] \<and> \<not> uncaught e"
  by (cases v) (simp_all add: default_field_def not_none_def single_def literal_validator_def)

lemma enum_field_accepts:
  "map_of d ''op'' = Some v \<Longrightarrow> py_int v = IntValue k \<Longrightarrow> Opcode_member k = Some c \<Longrightarrow>
   fst (required_field ''op''
     (not_none (single (enum_validator Opcode_member [0, 1, 2, 3, 4]))) d) = Inr c"
  by (cases v) (simp_all add: required_field_def not_none_def single_def enum_validator_def
      int_validator_def del: Opcode_member.simps)



text \<open>
  Only the validation of an \<^verbatim>\<open>Event\<close> (its time stamps, and the collaborators of the
  content of a message) can be left by an exception that pydantic does not catch; the
  other classes of \<^verbatim>\<open>PayloadType\<close> fail with validation errors only.
\<close>

lemma str_validator_caught: "str_validator L v = Inl e \<Longrightarrow> \<not> uncaught e"
  by (cases v) (auto simp: py_str_int_def split: if_splits)

lemma no_escape_str: "\<not> escapes (single (str_validator L) v)"
  by (cases "str_validator L v") (auto simp: single_def dest: str_validator_caught)

lemma no_escape_int: "\<not> escapes (single int_validator v)"
  by (simp add: single_def int_validator_def split: int_result.splits)

lemma no_escape_bool: "\<not> escapes (single bool_validator v)"
  by (cases v) (simp_all add: single_def)

lemma no_escape_enum: "\<not> escapes (single (enum_validator member vs) v)"
  by (simp add: single_def enum_validator_def int_validator_def
      split: int_result.splits option.splits)

lemma no_escape_literal: "\<not> escapes (single (literal_validator c) v)"
  by (simp add: single_def literal_validator_def)

lemma no_escape_not_none:
  "(\<And>v. \<not> escapes (validate v)) \<Longrightarrow> \<not> escapes (not_none validate v)"
  by (cases v) (simp_all add: not_none_def)

lemma no_escape_allow_none:
  "(\<And>v. \<not> escapes (validate v)) \<Longrightarrow> \<not> escapes (allow_none validate v)"
  by (cases v) (simp_all add: allow_none_def)

lemma no_escape_required_field:
  "(\<And>v. \<not> escapes (validate v)) \<Longrightarrow> \<not> escapes (required_field name validate d)"
  by (cases "map_of d name") (simp_all add: required_field_def)

lemma no_escape_default_field:
  "(\<And>v. \<not> escapes (validate v)) \<Longrightarrow> \<not> escapes (default_field name dflt validate d)"
  by (cases "map_of d name") (simp_all add: default_field_def)

lemma no_escape_construct:
  "(\<And>d. \<not> escapes (validate d)) \<Longrightarrow> \<not> escapes (construct validate d)"
  by (simp add: construct_def split: option.splits)

lemma no_escape_model_validate:
  "(\<And>d. \<not> escapes (validate d)) \<Longrightarrow> \<not> escapes (model_validate validate v)"
  by (simp add: model_validate_def no_escape_construct split: raw.splits option.splits)

lemma no_escape_validate_items:
  "(\<And>v. \<not> escapes (validate v)) \<Longrightarrow> \<not> escapes (validate_items validate i xs)"
  by (induction xs arbitrary: i) simp_all

lemma no_escape_list_validate:
  "(\<And>v. \<not> escapes (validate v)) \<Longrightarrow> \<not> escapes (list_validate validate v)"
  by (simp add: list_validate_def no_escape_validate_items split: raw.splits)

lemma no_escape_mapping_items: "\<not> escapes (mapping_items L items)"
  by (induction items) (auto simp: no_escape_not_none no_escape_str)

lemma no_escape_dict_validate: "\<not> escapes (dict_validate L v)"
  by (simp add: dict_validate_def no_escape_mapping_items split: raw.splits option.splits)

lemmas no_escape =
  no_escape_str no_escape_int no_escape_bool no_escape_enum no_escape_literal
  no_escape_not_none no_escape_allow_none no_escape_required_field no_escape_default_field
  no_escape_construct no_escape_model_validate no_escape_validate_items
  no_escape_list_validate no_escape_mapping_items no_escape_dict_validate

lemma no_escape_User: "\<not> escapes (validate_User L d)"
  by (simp add: validate_User_def no_escape)

lemma no_escape_Login: "\<not> escapes (validate_Login L d)"
  by (simp add: validate_Login_def no_escape no_escape_User)

lemma no_escape_Identify: "\<not> escapes (validate_Identify L d)"
  by (simp add: validate_Identify_def no_escape)

lemma no_escape_Ready: "\<not> escapes (validate_Ready L d)"
  by (simp add: validate_Ready_def no_escape no_escape_Login)


lemma no_escape_PingPayload: "\<not> escapes (validate_PingPayload L d)"
  by (simp add: validate_PingPayload_def no_escape)

lemma no_escape_PongPayload: "\<not> escapes (validate_PongPayload L d)"
  by (simp add: validate_PongPayload_def no_escape)

lemma no_escape_IdentifyPayload: "\<not> escapes (validate_IdentifyPayload L d)"
  by (simp add: validate_IdentifyPayload_def no_escape no_escape_Identify)

lemma no_escape_ReadyPayload: "\<not> escapes (validate_ReadyPayload L d)"
  by (simp add: validate_ReadyPayload_def no_escape no_escape_Ready)

lemma no_escape_Payload: "\<not> escapes (validate_Payload L d)"
  by (simp add: validate_Payload_def no_escape)


lemma or_else_Inl:
  "fst r = Inl es \<Longrightarrow> \<not> escaped es \<Longrightarrow> fst (or_else r s) =
     (case fst s of
        Inr y \<Rightarrow> Inr y
      | Inl es' \<Rightarrow> if escaped es' then Inl es' else Inl (es @ es'))"
  by (simp add: fst_or_else)

lemma fst_ap_ok: "fst (ap (ok g) x) = map_sum (\<lambda>es. es) g (fst x)"
  by (cases "fst x") (simp_all add: fst_ap)

lemma fst_construct:
  "map_of d ''__pydantic_self__'' = None \<Longrightarrow>
   fst (model_validate validate (RDict d)) = fst (validate d)"
  by (simp add: model_validate_def construct_def)


lemma model_validate_RDict:
  "model_validate validate (RDict d) = construct validate d"
  by (simp add: model_validate_def)




lemma body_field_absent:
  "map_of d ''body'' = None \<or> map_of d ''body'' = Some RNull \<Longrightarrow>
   fst (default_field ''body'' None (allow_none (dict_validate L)) d) = Inr None"
  by (auto simp: default_field_def allow_none_def)

lemma body_field_dict:
  "map_of d ''body'' = Some (RDict b) \<Longrightarrow>
   fst (default_field ''body'' None (allow_none (dict_validate L)) d) = Inr (Some b)"
  by (simp add: default_field_def allow_none_def dict_validate_def fst_ap)

lemma body_field_fails:
  "map_of d ''body'' = Some w \<Longrightarrow> w \<noteq> RNull \<Longrightarrow> py_dict w = None \<Longrightarrow>
   fst (default_field ''body'' None (allow_none (dict_validate L)) d) =
     Inl [([Key ''body''], DictError)]"
  by (cases w) (simp_all add: default_field_def allow_none_def dict_validate_def fst_ap)

lemma EventPayload_rejects_op:
  assumes "map_of d ''op'' = Some v" and "\<not> py_eq v (RInt 0)"
    and "\<not> escapes (validate_EventPayload L d)"
  shows "\<exists>es. fst (validate_EventPayload L d) = Inl es \<and> \<not> escaped es"
proof -
  from literal_field_fails [OF assms(1), of EVENT] assms(2)
  have "isl (fst (validate_EventPayload L d))"
    by (auto simp: validate_EventPayload_def)
  with assms(3) show ?thesis
    by (cases "fst (validate_EventPayload L d)") (simp_all add: escapes_def)
qed

lemma escapes_EventPayload:
  "escapes (validate_EventPayload L d) \<longleftrightarrow>
   escapes (required_field ''body'' (not_none (model_validate (validate_Event L))) d)"
  by (simp add: validate_EventPayload_def no_escape)

lemma escapes_body_dict:
  "map_of d ''body'' = Some (RDict b) \<Longrightarrow>
   escapes (validate_EventPayload L d) = escapes (construct (validate_Event L) b)"
  by (simp add: escapes_EventPayload required_field_def not_none_def model_validate_def)

lemma no_escape_body_absent:
  "map_of d ''body'' = None \<or> map_of d ''body'' = Some RNull \<Longrightarrow>
   \<not> escapes (validate_EventPayload L d)"
  by (auto simp: escapes_EventPayload required_field_def not_none_def)

lemma no_escape_body_fails:
  "map_of d ''body'' = Some w \<Longrightarrow> py_dict w = None \<Longrightarrow>
   \<not> escapes (validate_EventPayload L d)"
  by (cases w) (simp_all add: escapes_EventPayload required_field_def not_none_def
      model_validate_def)

lemma PingPayload_accepts:
  assumes "map_of d ''op'' = Some v" and "py_eq v (RInt 1)"
    and "map_of d ''__pydantic_self__'' = None"
    and "\<not> escapes (validate_EventPayload L d)"
    and "fst (default_field ''body'' None (allow_none (dict_validate L)) d) = Inr b"
  shows "fst (validate_PayloadType L (RDict d)) =
     Inr (IsPingPayload \<lparr>payload_op = PING, payload_body = b\<rparr>)"
proof -
  from assms(2) have "\<not> py_eq v (RInt 0)"
    by (simp add: py_eq_RInt)
  from EventPayload_rejects_op [OF assms(1) this assms(4)]
  obtain e1 where e1: "fst (validate_EventPayload L d) = Inl e1" "\<not> escaped e1"
    by auto
  have op: "fst (default_field ''op'' PING (not_none (single (literal_validator PING))) d) =
      Inr PING"
    using literal_field_accepts [OF assms(1), of PING] assms(2) by simp
  show ?thesis
    by (simp add: validate_PayloadType_def model_validate_RDict construct_no_key [OF assms(3)]
        fst_or_else fst_ap e1 op assms(5) validate_PingPayload_def)
qed

lemma PongPayload_accepts:
  assumes "map_of d ''op'' = Some v" and "py_eq v (RInt 2)"
    and "map_of d ''__pydantic_self__'' = None"
    and "\<not> escapes (validate_EventPayload L d)"
    and "fst (default_field ''body'' None (allow_none (dict_validate L)) d) = Inr b"
  shows "fst (validate_PayloadType L (RDict d)) =
     Inr (IsPongPayload \<lparr>payload_op = PONG, payload_body = b\<rparr>)"
proof -
  from assms(2) have neq: "\<not> py_eq v (RInt 0)" "\<not> py_eq v (RInt 1)"
    by (simp_all add: py_eq_RInt)
  from EventPayload_rejects_op [OF assms(1) neq(1) assms(4)]
  obtain e1 where e1: "fst (validate_EventPayload L d) = Inl e1" "\<not> escaped e1"
    by auto
  have "isl (fst (validate_PingPayload L d))"
    using literal_field_fails [OF assms(1), of PING] neq(2)
    by (auto simp: validate_PingPayload_def)
  then obtain e2 where e2: "fst (validate_PingPayload L d) = Inl e2" "\<not> escaped e2"
    using no_escape_PingPayload [of L d]
    by (cases "fst (validate_PingPayload L d)") (simp_all add: escapes_def)
  have op: "fst (default_field ''op'' PONG (not_none (single (literal_validator PONG))) d) =
      Inr PONG"
    using literal_field_accepts [OF assms(1), of PONG] assms(2) by simp
  show ?thesis
    by (simp add: validate_PayloadType_def model_validate_RDict construct_no_key [OF assms(3)]
        fst_or_else fst_ap e1 e2 op assms(5) validate_PongPayload_def)
qed

lemma isl_no_escape:
  "isl (fst r) \<Longrightarrow> \<not> escapes r \<Longrightarrow> \<exists>es. fst r = Inl es \<and> \<not> escaped es"
  by (cases "fst r") (simp_all add: escapes_def)

lemma body_fails:
  assumes "fst y = Inl es" and "\<not> escaped es" and "\<not> escapes x"
  shows "\<exists>errs. fst (ap (ap (ok F) x) y) = Inl errs \<and> set es \<subseteq> set errs \<and> \<not> escaped errs"
  using assms by (cases "fst x") (auto simp: fst_ap escapes_def)

lemma model_body_fails:
  assumes "map_of d ''body'' = Some w" and "w \<noteq> RNull" and "py_dict w = None"
  shows "fst (required_field ''body'' (not_none (model_validate validate)) d) =
     Inl [([Key ''body''], DictError)]"
  using assms by (cases w) (simp_all add: required_field_def not_none_def model_validate_def)

lemma no_escape_literal_field:
  "\<not> escapes (default_field ''op'' c (not_none (single (literal_validator c))) d)"
  by (simp add: no_escape)

lemma no_escape_enum_field:
  "\<not> escapes (required_field ''op''
     (not_none (single (enum_validator Opcode_member [0, 1, 2, 3, 4]))) d)"
  by (simp add: no_escape)

lemma PayloadType_body_fails:
  assumes "map_of d ''body'' = Some w" and "w \<noteq> RNull" and "py_dict w = None"
    and "map_of d ''__pydantic_self__'' = None"
  shows "\<exists>errs. fst (validate_PayloadType L (RDict d)) = Inl errs \<and>
     ([Key ''body''], DictError) \<in> set errs"
proof -
  note m = model_body_fails [OF assms(1-3)] and b = body_field_fails [OF assms(1-3)]
  obtain e1 where e1: "fst (validate_EventPayload L d) = Inl e1"
      "set [([Key ''body''], DictError)] \<subseteq> set e1" "\<not> escaped e1"
    unfolding validate_EventPayload_def
    using body_fails [OF m _ no_escape_literal_field] by fastforce
  obtain e2 where e2: "fst (validate_PingPayload L d) = Inl e2" "\<not> escaped e2"
    unfolding validate_PingPayload_def
    using body_fails [OF b _ no_escape_literal_field] by fastforce
  obtain e3 where e3: "fst (validate_PongPayload L d) = Inl e3" "\<not> escaped e3"
    unfolding validate_PongPayload_def
    using body_fails [OF b _ no_escape_literal_field] by fastforce
  obtain e4 where e4: "fst (validate_IdentifyPayload L d) = Inl e4" "\<not> escaped e4"
    unfolding validate_IdentifyPayload_def
    using body_fails [OF m _ no_escape_literal_field] by fastforce
  obtain e5 where e5: "fst (validate_ReadyPayload L d) = Inl e5" "\<not> escaped e5"
    unfolding validate_ReadyPayload_def
    using body_fails [OF m _ no_escape_literal_field] by fastforce
  obtain e6 where e6: "fst (validate_Payload L d) = Inl e6" "\<not> escaped e6"
    unfolding validate_Payload_def
    using body_fails [OF b _ no_escape_enum_field] by fastforce
  from e1(2) show ?thesis
    by (simp add: validate_PayloadType_def model_validate_RDict construct_no_key [OF assms(4)]
        fst_or_else fst_ap_ok e1 e2 e3 e4 e5 e6)
qed

text \<open>
  C5, as the code has it. \<^verbatim>\<open>PingPayload\<close> and \<^verbatim>\<open>PongPayload\<close> inherit the field
  \<^verbatim>\<open>body: Optional[Dict[str, Any]]\<close> of \<^verbatim>\<open>Payload\<close>, so the body is validated and
  kept, and \<^verbatim>\<open>EventPayload\<close>, which comes first in \<^verbatim>\<open>PayloadType\<close>, validates the
  body as an \<^verbatim>\<open>Event\<close> before it is rejected for its \<^verbatim>\<open>op\<close>. For an envelope that has
  no key \<^verbatim>\<open>__pydantic_self__\<close> and whose \<^verbatim>\<open>op\<close> equals 1 (\<^verbatim>\<open>PING\<close>): when \<^verbatim>\<open>body\<close> is
  absent or null the decoding returns a \<^verbatim>\<open>PingPayload\<close> without body; when \<^verbatim>\<open>body\<close>
  is a dict, and no exception leaves its validation as an \<^verbatim>\<open>Event\<close>, the decoding
  returns a \<^verbatim>\<open>PingPayload\<close> that holds that dict; when \<^verbatim>\<open>body\<close> is a value that
  \<^verbatim>\<open>dict\<close> does not read (an integer, for one) the decoding fails, with a
  \<^verbatim>\<open>DictError\<close> at \<^verbatim>\<open>body\<close>. The same holds for \<^verbatim>\<open>op\<close> equal to 2 (\<^verbatim>\<open>PONG\<close>) and
  \<^verbatim>\<open>PongPayload\<close>.
\<close>

theorem ping_pong_body:
  assumes "map_of d ''op'' = Some v" and "map_of d ''__pydantic_self__'' = None"
  shows
  "(py_eq v (RInt 1) \<longrightarrow>
      (map_of d ''body'' = None \<or> map_of d ''body'' = Some RNull \<longrightarrow>
         fst (validate_PayloadType L (RDict d)) =
           Inr (IsPingPayload \<lparr>payload_op = PING, payload_body = None\<rparr>)) \<and>
      (\<forall>b. map_of d ''body'' = Some (RDict b) \<and>
           \<not> escapes (construct (validate_Event L) b) \<longrightarrow>
         fst (validate_PayloadType L (RDict d)) =
           Inr (IsPingPayload \<lparr>payload_op = PING, payload_body = Some b\<rparr>)) \<and>
      (\<forall>w. map_of d ''body'' = Some w \<and> w \<noteq> RNull \<and> py_dict w = None \<longrightarrow>
         (\<exists>errs. fst (validate_PayloadType L (RDict d)) = Inl errs \<and>
            ([Key ''body''], DictError) \<in> set errs))) \<and>
   (py_eq v (RInt 2) \<longrightarrow>
      (map_of d ''body'' = None \<or> map_of d ''body'' = Some RNull \<longrightarrow>
         fst (validate_PayloadType L (RDict d)) =
           Inr (IsPongPayload \<lparr>payload_op = PONG, payload_body = None\<rparr>)) \<and>
      (\<forall>b. map_of d ''body'' = Some (RDict b) \<and>
           \<not> escapes (construct (validate_Event L) b) \<longrightarrow>
         fst (validate_PayloadType L (RDict d)) =
           Inr (IsPongPayload \<lparr>payload_op = PONG, payload_body = Some b\<rparr>)) \<and>
      (\<forall>w. map_of d ''body'' = Some w \<and> w \<noteq> RNull \<and> py_dict w = None \<longrightarrow>
         (\<exists>errs. fst (validate_PayloadType L (RDict d)) = Inl errs \<and>
            ([Key ''body''], DictError) \<in> set errs)))"
proof (intro conjI impI allI)
  assume op: "py_eq v (RInt 1)"
  {
    assume b: "map_of d ''body'' = None \<or> map_of d ''body'' = Some RNull"
    show "fst (validate_PayloadType L (RDict d)) =
        Inr (IsPingPayload \<lparr>payload_op = PING, payload_body = None\<rparr>)"
      by (rule PingPayload_accepts [OF assms(1) op assms(2) no_escape_body_absent [OF b]
            body_field_absent [OF b]])
  next
    fix b
    assume b: "map_of d ''body'' = Some (RDict b) \<and>
        \<not> escapes (construct (validate_Event L) b)"
    then have "\<not> escapes (validate_EventPayload L d)"
      by (simp add: escapes_body_dict)
    from PingPayload_accepts [OF assms(1) op assms(2) this] b
    show "fst (validate_PayloadType L (RDict d)) =
        Inr (IsPingPayload \<lparr>payload_op = PING, payload_body = Some b\<rparr>)"
      by (simp add: body_field_dict)
  next
    fix w
    assume "map_of d ''body'' = Some w \<and> w \<noteq> RNull \<and> py_dict w = None"
    then show "\<exists>errs. fst (validate_PayloadType L (RDict d)) = Inl errs \<and>
        ([Key ''body''], DictError) \<in> set errs"
      using PayloadType_body_fails [OF _ _ _ assms(2)] by blast
  }
next
  assume op: "py_eq v (RInt 2)"
  {
    assume b: "map_of d ''body'' = None \<or> map_of d ''body'' = Some RNull"
    show "fst (validate_PayloadType L (RDict d)) =
        Inr (IsPongPayload \<lparr>payload_op = PONG, payload_body = None\<rparr>)"
      by (rule PongPayload_accepts [OF assms(1) op assms(2) no_escape_body_absent [OF b]
            body_field_absent [OF b]])
  next
    fix b
    assume b: "map_of d ''body'' = Some (RDict b) \<and>
        \<not> escapes (construct (validate_Event L) b)"
    then have "\<not> escapes (validate_EventPayload L d)"
      by (simp add: escapes_body_dict)
    from PongPayload_accepts [OF assms(1) op assms(2) this] b
    show "fst (validate_PayloadType L (RDict d)) =
        Inr (IsPongPayload \<lparr>payload_op = PONG, payload_body = Some b\<rparr>)"
      by (simp add: body_field_dict)
  next
    fix w
    assume "map_of d ''body'' = Some w \<and> w \<noteq> RNull \<and> py_dict w = None"
    then show "\<exists>errs. fst (validate_PayloadType L (RDict d)) = Inl errs \<and>
        ([Key ''body''], DictError) \<in> set errs"
      using PayloadType_body_fails [OF _ _ _ assms(2)] by blast
  }
qed

theorem ping_pong_body_witness:
  "fst (validate_PayloadType example_lib (RDict [(''op'', RInt 1)])) =
     Inr (IsPingPayload \<lparr>payload_op = PING, payload_body = None\<rparr>) \<and>
   fst (validate_PayloadType example_lib
     (RDict [(''op'', RBool True), (''body'', RDict [(''junk'', RList [RInt 1, RNull])])])) =
     Inr (IsPingPayload
       \<lparr>payload_op = PING, payload_body = Some [(''junk'', RList [RInt 1, RNull])]\<rparr>) \<and>
   (\<exists>errs. fst (validate_PayloadType example_lib
       (RDict [(''op'', RInt 1), (''body'', RStr ''junk'')])) = Inl errs \<and>
      ([Key ''body''], DictError) \<in> set errs) \<and>
   fst (validate_PayloadType example_lib (RDict [(''op'', RInt 2), (''body'', RNull)])) =
     Inr (IsPongPayload \<lparr>payload_op = PONG, payload_body = None\<rparr>)"
proof -
  have 1: "fst (validate_PayloadType example_lib (RDict [(''op'', RInt 1)])) =
     Inr (IsPingPayload \<lparr>payload_op = PING, payload_body = None\<rparr>)"
    using ping_pong_body [of "[(''op'', RInt 1)]" "RInt 1" example_lib]
    by (simp add: py_eq_def)
  have "\<not> escapes (construct (validate_Event example_lib) [(''junk'', RList [RInt 1, RNull])])"
    by (simp add: validate_Event_def field_defs fst_ap escapes_def)
  then have 2: "fst (validate_PayloadType example_lib
     (RDict [(''op'', RBool True), (''body'', RDict [(''junk'', RList [RInt 1, RNull])])])) =
     Inr (IsPingPayload
       \<lparr>payload_op = PING, payload_body = Some [(''junk'', RList [RInt 1, RNull])]\<rparr>)"
    using ping_pong_body [of
        "[(''op'', RBool True), (''body'', RDict [(''junk'', RList [RInt 1, RNull])])]"
        "RBool True" example_lib]
    by (simp add: py_eq_def)
  have 3: "\<exists>errs. fst (validate_PayloadType example_lib
       (RDict [(''op'', RInt 1), (''body'', RStr ''junk'')])) = Inl errs \<and>
      ([Key ''body''], DictError) \<in> set errs"
    using ping_pong_body [of "[(''op'', RInt 1), (''body'', RStr ''junk'')]" "RInt 1"
        example_lib]
    by (simp add: py_eq_def)
  have 4: "fst (validate_PayloadType example_lib
      (RDict [(''op'', RInt 2), (''body'', RNull)])) =
     Inr (IsPongPayload \<lparr>payload_op = PONG, payload_body = None\<rparr>)"
    using ping_pong_body [of "[(''op'', RInt 2), (''body'', RNull)]" "RInt 2" example_lib]
    by (simp add: py_eq_def)
  from 1 2 3 4 show ?thesis
    by blast
qed

text \<open>
  C5, as the claim states it: with \<^verbatim>\<open>op\<close> 1 and the body 5, which is not a mapping,
  the decoding fails; a body that is a mapping is part of the result; a body whose time
  stamp is beyond the range of \<^verbatim>\<open>datetime.fromtimestamp\<close> ends the decoding with an
  \<^verbatim>\<open>OverflowError\<close>; and with the key \<^verbatim>\<open>__pydantic_self__\<close> in the envelope every
  constructor call fails.
\<close>

theorem ping_body_counterexample:
  "fst (validate_PayloadType example_lib (RDict [(''op'', RInt 1), (''body'', RInt 5)])) =
     Inl [([Key ''op''], WrongConstantError (RInt 1) 0),
          ([Key ''body''], DictError),
          ([Key ''body''], DictError),
          ([Key ''op''], WrongConstantError (RInt 1) 2),
          ([Key ''body''], DictError),
          ([Key ''op''], WrongConstantError (RInt 1) 3),
          ([Key ''body''], DictError),
          ([Key ''op''], WrongConstantError (RInt 1) 4),
          ([Key ''body''], DictError),
          ([Key ''body''], DictError)] \<and>
   fst (validate_PayloadType example_lib
     (RDict [(''op'', RInt 1), (''body'', RDict [(''a'', RInt 5)])])) =
     Inr (IsPingPayload \<lparr>payload_op = PING, payload_body = Some [(''a'', RInt 5)]\<rparr>) \<and>
   fst (validate_PayloadType example_lib (RDict [(''op'', RInt 1)])) =
     Inr (IsPingPayload \<lparr>payload_op = PING, payload_body = None\<rparr>) \<and>
   fst (validate_PayloadType example_lib
     (RDict [(''op'', RInt 1),
             (''body'', RDict [(''timestamp'', RInt 10000000000000000000000)])])) =
     Inl [([Key ''body'', Key ''timestamp''],
           Raised (OverflowError ''timestamp out of range for platform time_t''))] \<and>
   fst (validate_PayloadType example_lib
     (RDict [(''op'', RInt 1), (''__pydantic_self__'', RInt 1)])) =
     Inl [([], MultipleValuesError), ([], MultipleValuesError), ([], MultipleValuesError),
          ([], MultipleValuesError), ([], MultipleValuesError), ([], MultipleValuesError)]"
  by (simp add: validate_PayloadType_def fst_or_else fst_ap payload_defs field_defs
      dict_validate_def validate_Event_def parse_timestamp_def example_lib_simps)

lemma snd_literal_field [simp]:
  "snd (default_field ''op'' c (not_none (single (literal_validator c))) d) = []"
  by (simp add: no_logs)

lemma snd_EventPayload_no_body:
  "map_of d ''body'' = None \<or> map_of d ''body'' = Some RNull \<Longrightarrow>
   snd (validate_EventPayload L d) = []"
  by (auto simp: validate_EventPayload_def required_field_def not_none_def)

lemma Payload_accepts:
  assumes "map_of d ''op'' = Some v" and "py_eq v (RInt 0)"
    and "map_of d ''__pydantic_self__'' = None"
    and "map_of d ''body'' = None \<or> map_of d ''body'' = Some RNull"
  shows "validate_PayloadType L (RDict d) =
     (Inr (IsPayload \<lparr>payload_op = EVENT, payload_body = None\<rparr>), [])"
proof -
  from assms(2) have neq: "\<not> py_eq v (RInt (Opcode_value PING))"
      "\<not> py_eq v (RInt (Opcode_value PONG))" "\<not> py_eq v (RInt (Opcode_value IDENTIFY))"
      "\<not> py_eq v (RInt (Opcode_value READY))"
    by (simp_all add: py_eq_RInt)
  have op: "fst (default_field ''op'' EVENT (not_none (single (literal_validator EVENT))) d) =
      Inr EVENT"
    using literal_field_accepts [OF assms(1), of EVENT] assms(2) by simp
  have "isl (fst (required_field ''body'' (not_none (model_validate (validate_Event L))) d))"
    using assms(4) by (auto simp: required_field_def not_none_def)
  then have "isl (fst (validate_EventPayload L d))"
    by (simp add: validate_EventPayload_def)
  from isl_no_escape [OF this no_escape_body_absent [OF assms(4)]]
  obtain e1 where e1: "fst (validate_EventPayload L d) = Inl e1" "\<not> escaped e1"
    by auto
  have lit: "isl (fst (default_field ''op'' c (not_none (single (literal_validator c))) d))"
    if "\<not> py_eq v (RInt (Opcode_value c))" for c
    using literal_field_fails [OF assms(1) that] by auto
  have "isl (fst (validate_PingPayload L d))"
    by (simp add: validate_PingPayload_def lit [OF neq(1)])
  from isl_no_escape [OF this no_escape_PingPayload]
  obtain e2 where e2: "fst (validate_PingPayload L d) = Inl e2" "\<not> escaped e2"
    by auto
  have "isl (fst (validate_PongPayload L d))"
    by (simp add: validate_PongPayload_def lit [OF neq(2)])
  from isl_no_escape [OF this no_escape_PongPayload]
  obtain e3 where e3: "fst (validate_PongPayload L d) = Inl e3" "\<not> escaped e3"
    by auto
  have "isl (fst (validate_IdentifyPayload L d))"
    by (simp add: validate_IdentifyPayload_def lit [OF neq(3)])
  from isl_no_escape [OF this no_escape_IdentifyPayload]
  obtain e4 where e4: "fst (validate_IdentifyPayload L d) = Inl e4" "\<not> escaped e4"
    by auto
  have "isl (fst (validate_ReadyPayload L d))"
    by (simp add: validate_ReadyPayload_def lit [OF neq(4)])
  from isl_no_escape [OF this no_escape_ReadyPayload]
  obtain e5 where e5: "fst (validate_ReadyPayload L d) = Inl e5" "\<not> escaped e5"
    by auto
  have "py_int v = IntValue 0"
    using assms(2) by (simp add: py_eq_RInt number_py_int)
  from enum_field_accepts [OF assms(1) this, of EVENT]
  have e6: "fst (validate_Payload L d) = Inr \<lparr>payload_op = EVENT, payload_body = None\<rparr>"
    by (simp add: validate_Payload_def fst_ap body_field_absent [OF assms(4)])
  show ?thesis
    by (simp add: prod_eq_iff validate_PayloadType_def model_validate_RDict
        construct_no_key [OF assms(3)] fst_or_else snd_or_else fst_ap_ok snd_ap
        e1 e2 e3 e4 e5 e6 snd_EventPayload_no_body [OF assms(4)])
qed

lemma model_field_dict:
  "map_of d name = Some (RDict b) \<Longrightarrow> map_of b ''__pydantic_self__'' = None \<Longrightarrow>
   fst (validate b) = Inr x \<Longrightarrow>
   fst (required_field name (not_none (model_validate validate)) d) = Inr x"
  by (simp add: required_field_def not_none_def model_validate_RDict construct_def)

text \<open>
  C1, as the code has it. For an envelope that has no key \<^verbatim>\<open>__pydantic_self__\<close> and
  whose \<^verbatim>\<open>op\<close> equals 0 (\<^verbatim>\<open>EVENT\<close>): when \<^verbatim>\<open>body\<close> is absent, \<^verbatim>\<open>EventPayload\<close>
  rejects the envelope with a \<^verbatim>\<open>MissingError\<close> at \<^verbatim>\<open>body\<close>, and when \<^verbatim>\<open>body\<close> is
  null with a \<^verbatim>\<open>NoneIsNotAllowedError\<close> there; in both cases the decoding as
  \<^verbatim>\<open>PayloadType\<close> does not fail, it returns the generic \<^verbatim>\<open>Payload\<close> with \<^verbatim>\<open>op\<close>
  \<^verbatim>\<open>EVENT\<close> and no body, and logs nothing. When \<^verbatim>\<open>body\<close> is a dict without the key
  \<^verbatim>\<open>__pydantic_self__\<close> and each of the thirteen fields of \<^verbatim>\<open>Event\<close> validates, the
  decoding returns the \<^verbatim>\<open>EventPayload\<close> whose body holds, field by field, the validated
  value of the field of the input, and the other keys of the body.
\<close>

theorem event_envelope_decoding:
  assumes "map_of d ''op'' = Some v" and "py_eq v (RInt 0)"
    and "map_of d ''__pydantic_self__'' = None"
  shows
    "(map_of d ''body'' = None \<longrightarrow>
        fst (validate_EventPayload L d) = Inl [([Key ''body''], MissingError)] \<and>
        validate_PayloadType L (RDict d) =
          (Inr (IsPayload \<lparr>payload_op = EVENT, payload_body = None\<rparr>), [])) \<and>
     (map_of d ''body'' = Some RNull \<longrightarrow>
        fst (validate_EventPayload L d) = Inl [([Key ''body''], NoneIsNotAllowedError)] \<and>
        validate_PayloadType L (RDict d) =
          (Inr (IsPayload \<lparr>payload_op = EVENT, payload_body = None\<rparr>), [])) \<and>
     (\<forall>b i ty p s ts ch g l m msg opr r u.
        map_of d ''body'' = Some (RDict b) \<and> map_of b ''__pydantic_self__'' = None \<and>
        fst (required_field ''id'' (not_none (single int_validator)) b) = Inr i \<and>
        fst (required_field ''type'' (not_none (single (str_validator L))) b) = Inr ty \<and>
        fst (required_field ''platform'' (not_none (single (str_validator L))) b) = Inr p \<and>
        fst (required_field ''self_id'' (not_none (single (str_validator L))) b) = Inr s \<and>
        fst (required_field ''timestamp'' (pre_datetime (parse_timestamp L)) b) = Inr ts \<and>
        fst (default_field ''channel'' None (allow_none (model_validate (validate_Channel
          L))) b) = Inr ch \<and>
        fst (default_field ''guild'' None (allow_none (model_validate (validate_Guild L)))
          b) = Inr g \<and>
        fst (default_field ''login'' None (allow_none (model_validate (validate_Login L)))
          b) = Inr l \<and>
        fst (default_field ''member'' None (allow_none (model_validate
          (validate_InnerMember L))) b) = Inr m \<and>
        fst (default_field ''message'' None (allow_none (model_validate
          (validate_InnerMessage L))) b) = Inr msg \<and>
        fst (default_field ''operator'' None (allow_none (model_validate (validate_User
          L))) b) = Inr opr \<and>
        fst (default_field ''role'' None (allow_none (model_validate (validate_Role L))) b)
          = Inr r \<and>
        fst (default_field ''user'' None (allow_none (model_validate (validate_User L))) b)
          = Inr u \<longrightarrow>
        fst (validate_PayloadType L (RDict d)) =
          Inr (IsEventPayload
            \<lparr>event_payload_op = EVENT,
             event_payload_body =
              \<lparr>event_id = i, event_type = ty, event_platform = p, event_self_id = s,
                event_timestamp = ts, event_channel = ch, event_guild = g, event_login = l,
                event_member = m, event_message = msg, event_operator = opr, event_role =
                r, event_user = u, event_extra = extra_fields [''id'', ''type'',
                ''platform'', ''self_id'', ''timestamp'', ''channel'', ''guild'',
                ''login'', ''member'', ''message'', ''operator'', ''role'', ''user'']
                b\<rparr>\<rparr>))"
proof (intro conjI impI allI)
  have op: "fst (default_field ''op'' EVENT (not_none (single (literal_validator EVENT))) d) =
      Inr EVENT"
    using literal_field_accepts [OF assms(1), of EVENT] assms(2) by simp
  {
    assume "map_of d ''body'' = None"
    then show "fst (validate_EventPayload L d) = Inl [([Key ''body''], MissingError)]"
      by (simp add: validate_EventPayload_def fst_ap op required_field_def)
  next
    assume "map_of d ''body'' = None"
    then show "validate_PayloadType L (RDict d) =
          (Inr (IsPayload \<lparr>payload_op = EVENT, payload_body = None\<rparr>), [])"
      by (intro Payload_accepts [OF assms]) simp
  next
    assume "map_of d ''body'' = Some RNull"
    then show "fst (validate_EventPayload L d) =
        Inl [([Key ''body''], NoneIsNotAllowedError)]"
      by (simp add: validate_EventPayload_def fst_ap op required_field_def not_none_def)
  next
    assume "map_of d ''body'' = Some RNull"
    then show "validate_PayloadType L (RDict d) =
          (Inr (IsPayload \<lparr>payload_op = EVENT, payload_body = None\<rparr>), [])"
      by (intro Payload_accepts [OF assms]) simp
  next
    fix b i ty p s ts ch g l m msg opr r u
    assume h: "map_of d ''body'' = Some (RDict b) \<and> map_of b ''__pydantic_self__'' = None \<and>
        fst (required_field ''id'' (not_none (single int_validator)) b) = Inr i \<and>
        fst (required_field ''type'' (not_none (single (str_validator L))) b) = Inr ty \<and>
        fst (required_field ''platform'' (not_none (single (str_validator L))) b) = Inr p \<and>
        fst (required_field ''self_id'' (not_none (single (str_validator L))) b) = Inr s \<and>
        fst (required_field ''timestamp'' (pre_datetime (parse_timestamp L)) b) = Inr ts \<and>
        fst (default_field ''channel'' None (allow_none (model_validate (validate_Channel
          L))) b) = Inr ch \<and>
        fst (default_field ''guild'' None (allow_none (model_validate (validate_Guild L)))
          b) = Inr g \<and>
        fst (default_field ''login'' None (allow_none (model_validate (validate_Login L)))
          b) = Inr l \<and>
        fst (default_field ''member'' None (allow_none (model_validate
          (validate_InnerMember L))) b) = Inr m \<and>
        fst (default_field ''message'' None (allow_none (model_validate
          (validate_InnerMessage L))) b) = Inr msg \<and>
        fst (default_field ''operator'' None (allow_none (model_validate (validate_User
          L))) b) = Inr opr \<and>
        fst (default_field ''role'' None (allow_none (model_validate (validate_Role L))) b)
          = Inr r \<and>
        fst (default_field ''user'' None (allow_none (model_validate (validate_User L))) b)
          = Inr u"
    then have "fst (validate_Event L b) =
        Inr
              \<lparr>event_id = i, event_type = ty, event_platform = p, event_self_id = s,
                event_timestamp = ts, event_channel = ch, event_guild = g, event_login = l,
                event_member = m, event_message = msg, event_operator = opr, event_role =
                r, event_user = u, event_extra = extra_fields [''id'', ''type'',
                ''platform'', ''self_id'', ''timestamp'', ''channel'', ''guild'',
                ''login'', ''member'', ''message'', ''operator'', ''role'', ''user'']
                b\<rparr>"
      by (intro Event_of_fields) simp_all
    moreover from h have "map_of d ''body'' = Some (RDict b)"
        and "map_of b ''__pydantic_self__'' = None"
      by simp_all
    ultimately
    have "fst (required_field ''body'' (not_none (model_validate (validate_Event L))) d) =
        Inr
              \<lparr>event_id = i, event_type = ty, event_platform = p, event_self_id = s,
                event_timestamp = ts, event_channel = ch, event_guild = g, event_login = l,
                event_member = m, event_message = msg, event_operator = opr, event_role =
                r, event_user = u, event_extra = extra_fields [''id'', ''type'',
                ''platform'', ''self_id'', ''timestamp'', ''channel'', ''guild'',
                ''login'', ''member'', ''message'', ''operator'', ''role'', ''user'']
                b\<rparr>"
      by (rule model_field_dict [rotated 2])
    then show "fst (validate_PayloadType L (RDict d)) =
          Inr (IsEventPayload
            \<lparr>event_payload_op = EVENT,
             event_payload_body =
              \<lparr>event_id = i, event_type = ty, event_platform = p, event_self_id = s,
                event_timestamp = ts, event_channel = ch, event_guild = g, event_login = l,
                event_member = m, event_message = msg, event_operator = opr, event_role =
                r, event_user = u, event_extra = extra_fields [''id'', ''type'',
                ''platform'', ''self_id'', ''timestamp'', ''channel'', ''guild'',
                ''login'', ''member'', ''message'', ''operator'', ''role'', ''user'']
                b\<rparr>\<rparr>)"
      by (simp add: validate_PayloadType_def model_validate_RDict
          construct_no_key [OF assms(3)] fst_or_else fst_ap validate_EventPayload_def op)
  }
qed

theorem event_envelope_decoding_witness:
  "validate_PayloadType example_lib (RDict [(''op'', RInt 0)]) =
     (Inr (IsPayload \<lparr>payload_op = EVENT, payload_body = None\<rparr>), []) \<and>
   validate_PayloadType example_lib (RDict [(''op'', RBool False), (''body'', RNull)]) =
     (Inr (IsPayload \<lparr>payload_op = EVENT, payload_body = None\<rparr>), []) \<and>
   fst (validate_PayloadType example_lib
     (RDict [(''op'', RInt 0),
     (''body'', RDict
      [(''id'', RStr ''7''), (''type'', RStr ''message-created''), (''platform'', RStr ''qq''),
       (''self_id'', RInt 514), (''timestamp'', RStr ''2000''),
       (''channel'', RDict [(''id'', RInt 9), (''type'', RInt 0), (''name'', RStr ''general'')]),
       (''guild'', RDict [(''id'', RStr ''g1''), (''name'', RStr ''G'')]),
       (''login'', RDict [(''status'', RStr ''1''), (''platform'', RStr ''qq'')]),
       (''member'', RDict [(''name'', RStr ''M''), (''joined_at'', RInt 2500)]),
       (''message'', RDict [(''id'', RInt 42), (''content'', RStr ''hello'')]),
       (''operator'', RDict [(''id'', RStr ''u2'')]),
       (''role'', RDict [(''id'', RStr ''r1''), (''name'', RStr ''admin'')]),
       (''user'', RDict [(''id'', RStr ''u1''), (''is_bot'', RInt 0)]),
       (''_type'', RStr ''qq'')])])) =
     Inr (IsEventPayload
       \<lparr>event_payload_op = EVENT,
        event_payload_body =
          \<lparr>event_id = 7, event_type = ''message-created'', event_platform = ''qq'',
           event_self_id = ''514'', event_timestamp = 2,
           event_channel = Some
             \<lparr>channel_id = ''9'', channel_name = Some ''general'', channel_type = TEXT,
              channel_parent_id = None, channel_extra = []\<rparr>,
           event_guild = Some
             \<lparr>guild_id = ''g1'', guild_name = ''G'', guild_avatar = None, guild_extra = []\<rparr>,
           event_login = Some
             \<lparr>login_user = None, login_self_id = None, login_platform = Some ''qq'',
              login_status = ONLINE, login_extra = []\<rparr>,
           event_member = Some
             \<lparr>member_user = None, member_name = Some ''M'', member_avatar = None,
              member_joined_at = Some (5 / 2), member_extra = []\<rparr>,
           event_message = Some
             \<lparr>message_id = ''42'', message_content = [''hello''], message_channel = None,
              message_guild = None, message_member = None, message_user = None,
              message_created_at = None, message_updated_at = None, message_extra = []\<rparr>,
           event_operator = Some
             \<lparr>user_id = ''u2'', user_name = None, user_avatar = None, user_is_bot = None,
              user_extra = []\<rparr>,
           event_role = Some \<lparr>role_id = ''r1'', role_name = ''admin'', role_extra = []\<rparr>,
           event_user = Some
             \<lparr>user_id = ''u1'', user_name = None, user_avatar = None,
              user_is_bot = Some False, user_extra = []\<rparr>,
           event_extra = [(''_type'', RStr ''qq'')]\<rparr>\<rparr>)"
proof -
  have 1: "validate_PayloadType example_lib (RDict [(''op'', RInt 0)]) =
     (Inr (IsPayload \<lparr>payload_op = EVENT, payload_body = None\<rparr>), [])"
    using event_envelope_decoding [of "[(''op'', RInt 0)]" "RInt 0" example_lib]
    by (simp add: py_eq_def)
  have 2: "validate_PayloadType example_lib
      (RDict [(''op'', RBool False), (''body'', RNull)]) =
     (Inr (IsPayload \<lparr>payload_op = EVENT, payload_body = None\<rparr>), [])"
    using event_envelope_decoding [of "[(''op'', RBool False), (''body'', RNull)]"
        "RBool False" example_lib]
    by (simp add: py_eq_def)
  have 3: "fst (validate_PayloadType example_lib
     (RDict [(''op'', RInt 0),
     (''body'', RDict
      [(''id'', RStr ''7''), (''type'', RStr ''message-created''), (''platform'', RStr ''qq''),
       (''self_id'', RInt 514), (''timestamp'', RStr ''2000''),
       (''channel'', RDict [(''id'', RInt 9), (''type'', RInt 0), (''name'', RStr ''general'')]),
       (''guild'', RDict [(''id'', RStr ''g1''), (''name'', RStr ''G'')]),
       (''login'', RDict [(''status'', RStr ''1''), (''platform'', RStr ''qq'')]),
       (''member'', RDict [(''name'', RStr ''M''), (''joined_at'', RInt 2500)]),
       (''message'', RDict [(''id'', RInt 42), (''content'', RStr ''hello'')]),
       (''operator'', RDict [(''id'', RStr ''u2'')]),
       (''role'', RDict [(''id'', RStr ''r1''), (''name'', RStr ''admin'')]),
       (''user'', RDict [(''id'', RStr ''u1''), (''is_bot'', RInt 0)]),
       (''_type'', RStr ''qq'')])])) =
     Inr (IsEventPayload
       \<lparr>event_payload_op = EVENT,
        event_payload_body =
          \<lparr>event_id = 7, event_type = ''message-created'', event_platform = ''qq'',
           event_self_id = ''514'', event_timestamp = 2,
           event_channel = Some
             \<lparr>channel_id = ''9'', channel_name = Some ''general'', channel_type = TEXT,
              channel_parent_id = None, channel_extra = []\<rparr>,
           event_guild = Some
             \<lparr>guild_id = ''g1'', guild_name = ''G'', guild_avatar = None, guild_extra = []\<rparr>,
           event_login = Some
             \<lparr>login_user = None, login_self_id = None, login_platform = Some ''qq'',
              login_status = ONLINE, login_extra = []\<rparr>,
           event_member = Some
             \<lparr>member_user = None, member_name = Some ''M'', member_avatar = None,
              member_joined_at = Some (5 / 2), member_extra = []\<rparr>,
           event_message = Some
             \<lparr>message_id = ''42'', message_content = [''hello''], message_channel = None,
              message_guild = None, message_member = None, message_user = None,
              message_created_at = None, message_updated_at = None, message_extra = []\<rparr>,
           event_operator = Some
             \<lparr>user_id = ''u2'', user_name = None, user_avatar = None, user_is_bot = None,
              user_extra = []\<rparr>,
           event_role = Some \<lparr>role_id = ''r1'', role_name = ''admin'', role_extra = []\<rparr>,
           event_user = Some
             \<lparr>user_id = ''u1'', user_name = None, user_avatar = None,
              user_is_bot = Some False, user_extra = []\<rparr>,
           event_extra = [(''_type'', RStr ''qq'')]\<rparr>\<rparr>)"
    using event_envelope_decoding [of
     "[(''op'', RInt 0),
     (''body'', RDict
      [(''id'', RStr ''7''), (''type'', RStr ''message-created''), (''platform'', RStr ''qq''),
       (''self_id'', RInt 514), (''timestamp'', RStr ''2000''),
       (''channel'', RDict [(''id'', RInt 9), (''type'', RInt 0), (''name'', RStr ''general'')]),
       (''guild'', RDict [(''id'', RStr ''g1''), (''name'', RStr ''G'')]),
       (''login'', RDict [(''status'', RStr ''1''), (''platform'', RStr ''qq'')]),
       (''member'', RDict [(''name'', RStr ''M''), (''joined_at'', RInt 2500)]),
       (''message'', RDict [(''id'', RInt 42), (''content'', RStr ''hello'')]),
       (''operator'', RDict [(''id'', RStr ''u2'')]),
       (''role'', RDict [(''id'', RStr ''r1''), (''name'', RStr ''admin'')]),
       (''user'', RDict [(''id'', RStr ''u1''), (''is_bot'', RInt 0)]),
       (''_type'', RStr ''qq'')])]"
     "RInt 0" example_lib, THEN conjunct2, THEN conjunct2]
    by (simp add: entity_defs field_defs builtin_defs example_lib_simps fst_ap str_nat.simps)
  from 1 2 3 show ?thesis
    by blast
qed

text \<open>
  C1, as the claim states it. The envelope with \<^verbatim>\<open>op\<close> 0 and no body is not rejected:
  it decodes as the generic \<^verbatim>\<open>Payload\<close>. And an envelope with \<^verbatim>\<open>op\<close> 0 and a body that
  is a well-formed event is rejected when the envelope has the key
  \<^verbatim>\<open>__pydantic_self__\<close>: every constructor call fails.
\<close>

theorem event_envelope_without_body_counterexample:
  "validate_PayloadType example_lib (RDict [(''op'', RInt 0)]) =
     (Inr (IsPayload \<lparr>payload_op = EVENT, payload_body = None\<rparr>), []) \<and>
   fst (validate_PayloadType example_lib
     (RDict [(''op'', RInt 0),
       (''body'', RDict [(''id'', RInt 1), (''type'', RStr ''x''), (''platform'', RStr ''p''),
          (''self_id'', RStr ''s''), (''timestamp'', RInt 1500)]),
       (''__pydantic_self__'', RInt 1)])) =
     Inl [([], MultipleValuesError), ([], MultipleValuesError), ([], MultipleValuesError),
          ([], MultipleValuesError), ([], MultipleValuesError), ([], MultipleValuesError)] \<and>
   fst (validate_PayloadType example_lib
     (RDict [(''op'', RInt 0),
       (''body'', RDict [(''id'', RInt 1), (''type'', RStr ''x''), (''platform'', RStr ''p''),
          (''self_id'', RStr ''s''), (''timestamp'', RInt 1500)])])) =
     Inr (IsEventPayload
       \<lparr>event_payload_op = EVENT,
        event_payload_body =
          \<lparr>event_id = 1, event_type = ''x'', event_platform = ''p'', event_self_id = ''s'',
           event_timestamp = 3 / 2, event_channel = None, event_guild = None,
           event_login = None, event_member = None, event_message = None,
           event_operator = None, event_role = None, event_user = None,
           event_extra = []\<rparr>\<rparr>)"
  by (simp add: prod_eq_iff validate_PayloadType_def fst_or_else snd_or_else fst_ap snd_ap
      payload_defs field_defs validate_Event_def parse_timestamp_def example_lib_simps
      escapes_def)

section \<open>The content normalizer\<close>

text \<open>
  C6, as the code has it. The content normalizer \<^verbatim>\<open>parse_content\<close>: a list is passed
  through unchanged; null gives null; a string gives the sequence that the markup parser
  returns for it (the parser's exception when it raises); a value of any other type (a
  boolean, a number, a mapping, a \<^verbatim>\<open>datetime\<close>, an \<^verbatim>\<open>Element\<close> that is not in a list)
  fails with the error \<^verbatim>\<open>ValueError("content must be str")\<close>, which is the same for
  all these values and does not hold the raw value. A message whose \<^verbatim>\<open>content\<close> is such
  a value has this error at \<^verbatim>\<open>content\<close>.
\<close>

theorem parse_content_cases:
  "parse_content L (RList xs) = Inr (Some xs) \<and>
   parse_content L RNull = Inr None \<and>
   parse_content L (RStr s) =
     (case parse L s of
        Inr es \<Rightarrow> Inr (Some (map RElement es))
      | Inl x \<Rightarrow> Inl (Raised x)) \<and>
   ((\<forall>ys. v \<noteq> RList ys) \<and> v \<noteq> RNull \<and> (\<forall>t. v \<noteq> RStr t) \<longrightarrow>
      parse_content L v = Inl ContentMustBeStr \<and>
      (map_of d ''content'' = Some v \<longrightarrow>
         fst (required_field ''content'' (content_validate L) d) =
           Inl [([Key ''content''], ContentMustBeStr)]))"
  by (cases v)
    (simp_all add: parse_content_def content_validate_def required_field_def
      split: sum.splits)

theorem parse_content_cases_witness:
  "parse_content example_lib (RList [RElement ''a'', RInt 1]) =
     Inr (Some [RElement ''a'', RInt 1]) \<and>
   parse_content example_lib RNull = Inr None \<and>
   parse_content example_lib (RStr ''hello'') = Inr (Some [RElement ''hello'']) \<and>
   parse_content example_lib (RInt 5) = Inl ContentMustBeStr \<and>
   fst (required_field ''content'' (content_validate example_lib)
     [(''id'', RStr ''m1''), (''content'', RInt 5)]) =
     Inl [([Key ''content''], ContentMustBeStr)]"
  using parse_content_cases [of example_lib "[RElement ''a'', RInt 1]" "''hello''" "RInt 5"
      "[(''id'', RStr ''m1''), (''content'', RInt 5)]"]
  by (simp add: example_lib_simps)

text \<open>
  C6, as the claim states it: the error identifies the raw value. The integer 5 and the
  boolean true fail with one and the same error, so the error does not tell which value
  was given.
\<close>

theorem parse_content_counterexample:
  "parse_content example_lib (RInt 5) = Inl ContentMustBeStr \<and>
   parse_content example_lib (RBool True) = Inl ContentMustBeStr \<and>
   parse_content example_lib (RInt 5) = parse_content example_lib (RBool True)"
  by (simp add: parse_content_def)

section \<open>The diagnostic of a message without content\<close>


















section \<open>A null content and an absent content\<close>











end
